theory Spec2Isabelle
  imports Complex_Main "HOL-Library.Sublist"
begin

section \<open>Text\<close>

text \<open>
  JavaScript strings are modelled as \<^typ>\<open>string\<close>: the text in UTF-8, one
  \<^typ>\<open>char\<close> per byte. The markup delimiters and the literal \<open><script\<close> are
  ASCII, so searching for them in the bytes is searching for them in the text.

  Where the program looks at the characters of a text (white space, trimming,
  splitting), the model first splits the bytes into characters: \<open>chars\<close> gives the
  characters of a text, each as its UTF-8 bytes, the lead byte telling how many
  bytes follow. A text with a lone surrogate has no UTF-8 form and is not a value of
  the model.
\<close>

definition continuationBytes :: "char \<Rightarrow> nat" where
  "continuationBytes c =
     (if (of_char c :: nat) < 0xC0 then 0
      else if (of_char c :: nat) < 0xE0 then 1
      else if (of_char c :: nat) < 0xF0 then 2
      else 3)"

function chars :: "string \<Rightarrow> string list" where
  "chars [] = []"
| "chars (c # cs) =
     (c # take (continuationBytes c) cs) # chars (drop (continuationBytes c) cs)"
  by pat_completeness auto
termination
  by (relation "measure length") simp_all

text \<open>
  The white space of \<open>\s\<close> and of \<open>trim\<close>, which is the \<open>WhiteSpace\<close> and
  \<open>LineTerminator\<close> of the language: U+0009 to U+000D, U+0020, U+00A0, U+1680, U+2000
  to U+200A, U+2028, U+2029, U+202F, U+205F, U+3000 and U+FEFF.
\<close>

definition whiteSpace :: "string list" where
  "whiteSpace =
     [[CHR 0x09], [CHR 0x0A], [CHR 0x0B], [CHR 0x0C], [CHR 0x0D], [CHR 0x20],
      [CHR 0xC2, CHR 0xA0],
      [CHR 0xE1, CHR 0x9A, CHR 0x80],
      [CHR 0xE2, CHR 0x80, CHR 0x80], [CHR 0xE2, CHR 0x80, CHR 0x81],
      [CHR 0xE2, CHR 0x80, CHR 0x82], [CHR 0xE2, CHR 0x80, CHR 0x83],
      [CHR 0xE2, CHR 0x80, CHR 0x84], [CHR 0xE2, CHR 0x80, CHR 0x85],
      [CHR 0xE2, CHR 0x80, CHR 0x86], [CHR 0xE2, CHR 0x80, CHR 0x87],
      [CHR 0xE2, CHR 0x80, CHR 0x88], [CHR 0xE2, CHR 0x80, CHR 0x89],
      [CHR 0xE2, CHR 0x80, CHR 0x8A],
      [CHR 0xE2, CHR 0x80, CHR 0xA8], [CHR 0xE2, CHR 0x80, CHR 0xA9],
      [CHR 0xE2, CHR 0x80, CHR 0xAF],
      [CHR 0xE2, CHR 0x81, CHR 0x9F],
      [CHR 0xE3, CHR 0x80, CHR 0x80],
      [CHR 0xEF, CHR 0xBB, CHR 0xBF]]"

definition isSpace :: "string \<Rightarrow> bool" where
  "isSpace ch = (ch \<in> set whiteSpace)"

text \<open>\<open>s.trim()\<close>: the white space at both ends of the text is removed.\<close>

definition trimEnd :: "string list \<Rightarrow> string list" where
  "trimEnd s = rev (dropWhile isSpace (rev s))"

definition trimChars :: "string list \<Rightarrow> string list" where
  "trimChars s = trimEnd (dropWhile isSpace s)"

definition trim :: "string \<Rightarrow> string" where
  "trim s = concat (trimChars (chars s))"

text \<open>\<open>s.split(d)\<close> for a one-character separator: the pieces between the separators.\<close>

fun split_on :: "'a \<Rightarrow> 'a list \<Rightarrow> 'a list list" where
  "split_on d [] = [[]]"
| "split_on d (c # cs) =
     (if c = d then [] # split_on d cs
      else (case split_on d cs of [] \<Rightarrow> [[c]] | p # ps \<Rightarrow> (c # p) # ps))"

section \<open>Configuration\<close>

text \<open>The fields of \<open>CONFIG\<close> that the modelled functions read.\<close>

definition cacheKey :: string where
  "cacheKey = ''pps_articles_cache''"

definition cacheDuration :: int where
  "cacheDuration = 5 * 60 * 1000"

definition wordsPerMinute :: nat where
  "wordsPerMinute = 200"

section \<open>Reading time\<close>

text \<open>
  The three steps of \<open>calculateReadingTime\<close> on the characters of the text.
  \<open>html.replace(/<[^>]*>/g, ' ')\<close>: scanning from the left, a \<open><\<close> that has a \<open>>\<close>
  somewhere after it is replaced, together with everything up to the first such \<open>>\<close>,
  by one space. A \<open><\<close> with no \<open>>\<close> after it stays, and so does the rest of the text.
\<close>

function stripTags :: "string list \<Rightarrow> string list" where
  "stripTags [] = []"
| "stripTags (c # cs) =
     (if c = ''<'' \<and> ''>'' \<in> set cs
      then '' '' # stripTags (tl (dropWhile (\<lambda>x. x \<noteq> ''>'') cs))
      else c # stripTags cs)"
  by pat_completeness auto
termination
proof (relation "measure length")
  show "wf (measure length)" by simp
next
  fix c :: string and cs :: "string list"
  have "length (tl (dropWhile (\<lambda>x. x \<noteq> ''>'') cs)) \<le> length cs"
    using length_dropWhile_le [of "\<lambda>x. x \<noteq> ''>''" cs] by simp
  then show "(tl (dropWhile (\<lambda>x. x \<noteq> ''>'') cs), c # cs) \<in> measure length"
    by simp
next
  fix c :: string and cs :: "string list"
  show "(cs, c # cs) \<in> measure length" by simp
qed

text \<open>\<open>.replace(/\s+/g, ' ')\<close>: every maximal run of white space becomes one space.\<close>

function collapseWs :: "string list \<Rightarrow> string list" where
  "collapseWs [] = []"
| "collapseWs (c # cs) =
     (if isSpace c then '' '' # collapseWs (dropWhile isSpace cs)
      else c # collapseWs cs)"
  by pat_completeness auto
termination
proof (relation "measure length")
  show "wf (measure length)" by simp
next
  fix c :: string and cs :: "string list"
  show "(dropWhile isSpace cs, c # cs) \<in> measure length"
    using length_dropWhile_le [of isSpace cs] by simp
next
  fix c :: string and cs :: "string list"
  show "(cs, c # cs) \<in> measure length" by simp
qed

text \<open>
  \<open>calculateReadingTime(html)\<close>. The argument is a string at every call, so
  \<open>html || ''\<close> is the argument itself. \<open>words / CONFIG.wordsPerMinute\<close> is the exact
  quotient: a word count is far below \<open>2^53\<close>, where the rounding of the floating-point
  division cannot reach the next integer.
\<close>

definition visibleText :: "string \<Rightarrow> string list" where
  "visibleText html = trimChars (collapseWs (stripTags (chars html)))"

definition calculateReadingTime :: "string \<Rightarrow> nat" where
  "calculateReadingTime html =
     (let text = visibleText html;
          words = (if text \<noteq> [] then length (split_on '' '' text) else 0)
      in max 1 (nat \<lceil>real words / real wordsPerMinute\<rceil>))"

text \<open>
  The specification's word count: the white-space-delimited tokens of the text that is
  left when the markup is stripped. A token is a maximal run of characters that are
  not white space.
\<close>

function tokens :: "string list \<Rightarrow> string list list" where
  "tokens [] = []"
| "tokens (c # cs) =
     (if isSpace c then tokens cs
      else takeWhile (\<lambda>x. \<not> isSpace x) (c # cs) # tokens (dropWhile (\<lambda>x. \<not> isSpace x) cs))"
  by pat_completeness auto
termination
proof (relation "measure length")
  show "wf (measure length)" by simp
next
  fix c :: string and cs :: "string list"
  show "(cs, c # cs) \<in> measure length" by simp
next
  fix c :: string and cs :: "string list"
  show "(dropWhile (\<lambda>x. \<not> isSpace x) cs, c # cs) \<in> measure length"
    using length_dropWhile_le [of "\<lambda>x. \<not> isSpace x" cs] by simp
qed

definition wordCount :: "string \<Rightarrow> nat" where
  "wordCount html = length (tokens (stripTags (chars html)))"

section \<open>The platform\<close>

text \<open>
  The browser functions the program calls are not part of its source. Those whose
  result matters only as "some value" are parameters of the model, gathered in the
  record \<open>platform\<close>: the HTML fragment parser behind \<open>temp.innerHTML = html\<close>, the
  serializer behind reading \<open>temp.innerHTML\<close>, \<open>Date.prototype.toLocaleDateString\<close> for
  the locale \<open>id-ID\<close>, \<open>JSON.parse\<close>, \<open>JSON.stringify\<close>, \<open>String.prototype.toLowerCase\<close>
  and the conversion of a string, array or object to a number. Every theorem holds
  for every platform, unless it states an assumption on one of these functions.
\<close>

datatype err_kind = Error | TypeError | SyntaxError | RangeError | SecurityError | QuotaExceededError

datatype js_error = JsError (kind: err_kind) (message: string)

text \<open>
  JavaScript values as far as \<open>JSON.parse\<close> yields them, and \<open>undefined\<close>. Numbers are
  the integers: the time stamps of the cache are milliseconds since the epoch.
\<close>

datatype jsval =
    JUndefined
  | JNull
  | JBool bool
  | JNum int
  | JStr string
  | JArr "jsval list"
  | JObj "(string \<times> jsval) list"

text \<open>
  A node of a detached DOM tree: an element with its local name, attributes and
  children; a \<open>template\<close> element with its attributes and its \<^emph>\<open>template contents\<close>;
  a text node; a comment. The template contents are a document fragment of their own:
  they are not children of the \<open>template\<close> element, so \<open>querySelectorAll\<close> on an
  ancestor does not reach them, while the serializer behind \<open>innerHTML\<close> writes them
  out between \<open><template>\<close> and \<open></template>\<close>.
\<close>

datatype node =
    Element string "(string \<times> string) list" "node list"
  | Template "(string \<times> string) list" "node list"
  | Text string
  | Comment string

record platform =
  parseHTML :: "string \<Rightarrow> node list"
  serializeHTML :: "node list \<Rightarrow> string"
  toLocaleDateString :: "string \<Rightarrow> js_error + string"
  JSON_parse :: "string \<Rightarrow> js_error + jsval"
  JSON_stringify :: "jsval \<Rightarrow> string"
  toLowerCase :: "string \<Rightarrow> string"
  objectToNumber :: "jsval \<Rightarrow> int option"

section \<open>Articles\<close>

text \<open>
  An article record as the data file gives it. \<open>None\<close> is a field that is absent
  (\<open>undefined\<close>).
\<close>

record article =
  article_id :: string
  title :: "string option"
  topic :: "string option"
  excerpt :: "string option"
  author :: "string option"
  date :: "string option"
  cover :: "string option"
  content :: "string option"

text \<open>Truthiness of an optional string, \<open>x || d\<close>, and \<open>String(x)\<close>.\<close>

definition truthy_str :: "string option \<Rightarrow> bool" where
  "truthy_str x = (case x of None \<Rightarrow> False | Some s \<Rightarrow> s \<noteq> [])"

definition orElse :: "string option \<Rightarrow> string \<Rightarrow> string" where
  "orElse x d = (case x of None \<Rightarrow> d | Some s \<Rightarrow> if s = [] then d else s)"

definition jsString :: "string option \<Rightarrow> string" where
  "jsString x = (case x of None \<Rightarrow> ''undefined'' | Some s \<Rightarrow> s)"

definition nl :: string where
  "nl = [CHR 0x0A]"

text \<open>A natural number in decimal, as a template literal prints it.\<close>

definition digit :: "nat \<Rightarrow> char" where
  "digit n = ''0123456789'' ! (n mod 10)"

function decimal :: "nat \<Rightarrow> string" where
  "decimal n = (if n < 10 then [digit n] else decimal (n div 10) @ [digit n])"
  by pat_completeness auto
termination
  by (relation "measure id") auto

declare decimal.simps [simp del]

section \<open>Escaping\<close>

text \<open>
  \<open>escapeHTML(str)\<close> assigns \<open>str ?? ''\<close> to the \<open>textContent\<close> of a fresh \<open>div\<close> and
  reads its \<open>innerHTML\<close>: the serialization of one text node, which replaces \<open>&\<close>,
  \<open><\<close>, \<open>>\<close> and the no-break space (U+00A0, the bytes C2 A0) and nothing else.
\<close>

definition escapeChar :: "char \<Rightarrow> string" where
  "escapeChar c =
     (if c = CHR ''&'' then ''&amp;''
      else if c = CHR ''<'' then ''&lt;''
      else if c = CHR ''>'' then ''&gt;''
      else [c])"

fun escapeText :: "string \<Rightarrow> string" where
  "escapeText [] = []"
| "escapeText [c] = escapeChar c"
| "escapeText (c # d # cs) =
     (if c = CHR 0xC2 \<and> d = CHR 0xA0 then ''&nbsp;'' @ escapeText cs
      else escapeChar c @ escapeText (d # cs))"

definition escapeHTML :: "string option \<Rightarrow> string" where
  "escapeHTML str = escapeText (case str of None \<Rightarrow> [] | Some s \<Rightarrow> s)"

text \<open>
  \<open>encodeURIComponent\<close>: the unreserved characters stay, every other byte of the
  UTF-8 text becomes \<open>%XX\<close>.
\<close>

definition unreserved :: "char \<Rightarrow> bool" where
  "unreserved c =
     (c \<in> set ''ABCDEFGHIJKLMNOPQRSTUVWXYZabcdefghijklmnopqrstuvwxyz0123456789-_.!~*()''
      \<or> c = CHR 0x27)"

definition hexDigit :: "nat \<Rightarrow> char" where
  "hexDigit n = ''0123456789ABCDEF'' ! (n mod 16)"

definition percentEncode :: "char \<Rightarrow> string" where
  "percentEncode c =
     (if unreserved c then [c]
      else [CHR ''%'', hexDigit (of_char c div 16), hexDigit (of_char c mod 16)])"

definition encodeURIComponent :: "string \<Rightarrow> string" where
  "encodeURIComponent s = concat (map percentEncode s)"

text \<open>
  \<open>formatDate(isoDate)\<close>: the date in the Indonesian format; when the platform raises,
  the argument itself.
\<close>

definition formatDate :: "platform \<Rightarrow> string option \<Rightarrow> string option" where
  "formatDate P isoDate =
     (case toLocaleDateString P (jsString isoDate @ ''T00:00:00'') of
        Inr s \<Rightarrow> Some s
      | Inl error \<Rightarrow> isoDate)"

section \<open>The sanitizer\<close>

text \<open>
  \<open>temp.querySelectorAll('script')\<close> lists the \<open>script\<close> elements among the descendants
  of \<open>temp\<close>, and each is removed from its parent: the tree loses every \<open>script\<close>
  element it has outside template contents, with what is below it.
\<close>

fun isScript :: "node \<Rightarrow> bool" where
  "isScript (Element t ats cs) = (t = ''script'')"
| "isScript (Template ats cs) = False"
| "isScript (Text s) = False"
| "isScript (Comment s) = False"

fun removeScripts :: "node \<Rightarrow> node" where
  "removeScripts (Element t ats cs) =
     Element t ats (map removeScripts (filter (\<lambda>n. \<not> isScript n) cs))"
| "removeScripts (Template ats cs) = Template ats cs"
| "removeScripts (Text s) = Text s"
| "removeScripts (Comment s) = Comment s"

text \<open>
  \<open>el.removeAttribute(name)\<close> removes the first attribute of that name. The loop
  \<open>Array.from(el.attributes).forEach(...)\<close> runs over a copy of the attribute list and
  removes from the element.
\<close>

fun removeAttribute :: "string \<Rightarrow> (string \<times> string) list \<Rightarrow> (string \<times> string) list" where
  "removeAttribute n [] = []"
| "removeAttribute n ((k, v) # r) = (if k = n then r else (k, v) # removeAttribute n r)"

definition removeHandlerAttributes :: "(string \<times> string) list \<Rightarrow> (string \<times> string) list" where
  "removeHandlerAttributes ats =
     fold (\<lambda>attr el. if prefix ''on'' (fst attr) then removeAttribute (fst attr) el else el) ats ats"

text \<open>
  \<open>temp.querySelectorAll('*')\<close> lists every element among the descendants of \<open>temp\<close>: a
  \<open>template\<close> element is one of them, the elements of its contents are not.
\<close>

fun removeHandlers :: "node \<Rightarrow> node" where
  "removeHandlers (Element t ats cs) = Element t (removeHandlerAttributes ats) (map removeHandlers cs)"
| "removeHandlers (Template ats cs) = Template (removeHandlerAttributes ats) cs"
| "removeHandlers (Text s) = Text s"
| "removeHandlers (Comment s) = Comment s"

definition sanitizeDOM :: "node list \<Rightarrow> node list" where
  "sanitizeDOM temp =
     map removeHandlers (map removeScripts (filter (\<lambda>n. \<not> isScript n) temp))"

definition sanitizeHTML :: "platform \<Rightarrow> string \<Rightarrow> string" where
  "sanitizeHTML P html = serializeHTML P (sanitizeDOM (parseHTML P html))"

section \<open>Rendering\<close>

text \<open>
  The template literals, one line of the source on each line; \<open>nl\<close> is the line break
  and the characters outside ASCII are their UTF-8 bytes.
\<close>

definition cardCoverHTML :: "article \<Rightarrow> string" where
  \<open>cardCoverHTML article =
     (if truthy_str (cover article)
      then concat
        [''<img src="'', escapeHTML (cover article), ''" alt="'', escapeHTML (title article), ''" loading="lazy" />'']
      else [])\<close>

definition generateCardHTML :: "platform \<Rightarrow> article \<Rightarrow> string" where
  \<open>generateCardHTML P article =
     (let coverHTML = cardCoverHTML article
      in concat
        [nl,
         ''    <a class="card col-4"'', nl,
         ''       href="article-detail.html?id='', encodeURIComponent (article_id article), ''"'', nl,
         ''       data-topic="'', escapeHTML (topic article), ''"'', nl,
         ''       data-title="'', escapeHTML (title article), ''"'', nl,
         ''       aria-label="Baca artikel '', escapeHTML (title article), ''">'', nl,
         ''      <div class="card-media">'', coverHTML, ''</div>'', nl,
         ''      <div class="card-body">'', nl,
         ''        <div class="card-topic">'', nl,
         ''          <span class="dot" aria-hidden="true"></span>'', nl,
         ''          '', escapeHTML (topic article), nl,
         ''        </div>'', nl,
         ''        <h3 class="card-title">'', escapeHTML (title article), ''</h3>'', nl,
         ''        <p class="card-excerpt">'', escapeHTML (Some (orElse (excerpt article) '''')), ''</p>'', nl,
         ''        <div class="card-meta">'', nl,
         ''          <span>'', [CHR 0xF0, CHR 0x9F, CHR 0x93, CHR 0x85], '' '', escapeHTML (formatDate P (date article)), ''</span>'', nl,
         ''          <span aria-hidden="true">'', [CHR 0xE2, CHR 0x80, CHR 0xA2], ''</span>'', nl,
         ''          <span>'', [CHR 0xE2, CHR 0x9C, CHR 0x8F, CHR 0xEF, CHR 0xB8, CHR 0x8F], '' '', escapeHTML (Some (orElse (author article) ''Anonim'')), ''</span>'', nl,
         ''        </div>'', nl,
         ''      </div>'', nl,
         ''    </a>'', nl,
         ''  ''])\<close>

text \<open>
  \<open>generateDetailHTML\<close>. Its template literal is written in two parts, the lines up to
  \<open>${sanitizedContent}\<close> and the lines after it; \<open>detailMarkup\<close> is the literal as a
  function of the text that stands at \<open>${sanitizedContent}\<close>.
\<close>

definition detailCoverHTML :: "article \<Rightarrow> string" where
  \<open>detailCoverHTML article =
     (if truthy_str (cover article)
      then concat
        [nl,
         ''    <div class="article-cover">'', nl,
         ''      <img src="'', escapeHTML (cover article), ''" alt="Cover '', escapeHTML (title article), ''" />'', nl,
         ''    </div>'', nl,
         ''  '']
      else [])\<close>

definition detailHead :: "platform \<Rightarrow> article \<Rightarrow> string \<Rightarrow> nat \<Rightarrow> string list" where
  \<open>detailHead P article coverHTML readingTime =
        [nl,
         ''    <section class="hero" role="banner" aria-label="Header artikel">'', nl,
         ''      <div class="hero-inner">'', nl,
         ''        <div class="hero-kicker">'', nl,
         ''          ARTIKEL '', [CHR 0xE2, CHR 0x80, CHR 0xA2], '' <span style="opacity:.9">TOPIK: '', escapeHTML (topic article), ''</span>'', nl,
         ''        </div>'', nl,
         ''        <h1 class="hero-title">'', escapeHTML (title article), ''</h1>'', nl,
         ''        <p class="hero-sub">'', escapeHTML (Some (orElse (excerpt article) '''')), ''</p>'', nl,
         ''      </div>'', nl,
         ''    </section>'', nl,
         nl,
         ''    <div class="article-shell">'', nl,
         ''      <article class="article" role="main">'', nl,
         ''        '', coverHTML, nl,
         nl,
         ''        <header class="article-head">'', nl,
         ''          <div class="meta-bar">'', nl,
         ''            <span class="badge">'', nl,
         ''              <span class="dot" aria-hidden="true"></span>'', nl,
         ''              '', escapeHTML (topic article), nl,
         ''            </span>'', nl,
         ''            <span>'', [CHR 0xF0, CHR 0x9F, CHR 0x93, CHR 0x85], '' '', escapeHTML (formatDate P (date article)), ''</span>'', nl,
         ''            <span>'', [CHR 0xE2, CHR 0x9C, CHR 0x8F, CHR 0xEF, CHR 0xB8, CHR 0x8F], '' '', escapeHTML (Some (orElse (author article) ''Anonim'')), ''</span>'', nl,
         ''            <span>'', [CHR 0xE2, CHR 0x8F, CHR 0xB1, CHR 0xEF, CHR 0xB8, CHR 0x8F], '' '', decimal readingTime, '' menit baca</span>'', nl,
         ''          </div>'', nl,
         nl,
         ''          <h1 class="article-title">'', escapeHTML (title article), ''</h1>'', nl,
         ''        </header>'', nl,
         nl,
         ''        <section class="article-content">'', nl,
         ''          '']\<close>

definition detailTail :: "platform \<Rightarrow> article \<Rightarrow> nat \<Rightarrow> string list" where
  \<open>detailTail P article readingTime =
        [nl,
         ''        </section>'', nl,
         ''      </article>'', nl,
         nl,
         ''      <aside class="aside" role="complementary" aria-label="Informasi tambahan">'', nl,
         ''        <div class="panel">'', nl,
         ''          <h4>Info Artikel</h4>'', nl,
         ''          <div style="padding: 4px 10px;">'', nl,
         ''            <div style="margin-bottom: 8px;">'', nl,
         ''              <strong>Topik:</strong> '', escapeHTML (topic article), nl,
         ''            </div>'', nl,
         ''            <div style="margin-bottom: 8px;">'', nl,
         ''              <strong>Tanggal:</strong> '', escapeHTML (formatDate P (date article)), nl,
         ''            </div>'', nl,
         ''            <div style="margin-bottom: 8px;">'', nl,
         ''              <strong>Penulis:</strong> '', escapeHTML (Some (orElse (author article) ''Anonim'')), nl,
         ''            </div>'', nl,
         ''            <div>'', nl,
         ''              <strong>Waktu Baca:</strong> '', decimal readingTime, '' menit'', nl,
         ''            </div>'', nl,
         ''          </div>'', nl,
         ''        </div>'', nl,
         nl,
         ''        <div class="panel">'', nl,
         ''          <h4>Navigasi</h4>'', nl,
         ''          <a href="article-list.html">'', [CHR 0xE2, CHR 0x86, CHR 0x90], '' Kembali ke daftar</a>'', nl,
         ''          <a href="#" onclick="window.print(); return false;">'', [CHR 0xF0, CHR 0x9F, CHR 0x96, CHR 0xA8, CHR 0xEF, CHR 0xB8, CHR 0x8F], '' Cetak artikel</a>'', nl,
         ''          <a href="#"'', nl,
         ''             onclick="navigator.share?.({title: '', [CHR 0x27], escapeHTML (title article), [CHR 0x27], '', url: window.location.href}); return false;">'', nl,
         ''             '', [CHR 0xF0, CHR 0x9F, CHR 0x93, CHR 0xA4], '' Bagikan'', nl,
         ''          </a>'', nl,
         ''        </div>'', nl,
         ''      </aside>'', nl,
         ''    </div>'', nl,
         ''  '']\<close>

definition detailMarkup :: "platform \<Rightarrow> article \<Rightarrow> string \<Rightarrow> string" where
  "detailMarkup P article sanitizedContent =
     (let coverHTML = detailCoverHTML article;
          readingTime = calculateReadingTime (orElse (content article) [])
      in concat (detailHead P article coverHTML readingTime @ [sanitizedContent]
                 @ detailTail P article readingTime))"

definition generateDetailHTML :: "platform \<Rightarrow> article \<Rightarrow> string" where
  "generateDetailHTML P article =
     detailMarkup P article
       (sanitizeHTML P (orElse (content article) ''<p>Konten tidak tersedia.</p>''))"

text \<open>\<open>showLoading\<close> and \<open>showError\<close>: the markup they put into the element.\<close>

definition showLoading :: string where
  \<open>showLoading = concat
        [nl,
         ''    <div class="card col-12" style="padding: 40px; text-align: center;">'', nl,
         ''      <div class="loading" style="margin: 0 auto 16px;"></div>'', nl,
         ''      <p class="card-excerpt">Memuat artikel...</p>'', nl,
         ''    </div>'', nl,
         ''  '']\<close>

definition showError :: "string \<Rightarrow> string" where
  \<open>showError msg = concat
        [nl,
         ''    <div class="card col-12" style="padding: 24px; background: #fee; outline-color: #fcc;">'', nl,
         ''      <div class="card-title" style="color: #c33;">'', [CHR 0xE2, CHR 0x9A, CHR 0xA0, CHR 0xEF, CHR 0xB8, CHR 0x8F], '' Error</div>'', nl,
         ''      <p class="card-excerpt" style="color: #a22;">'', escapeHTML (Some msg), ''</p>'', nl,
         ''      <button onclick="location.reload()" class="chip" style="margin-top: 12px;">'', nl,
         ''        Muat Ulang'', nl,
         ''      </button>'', nl,
         ''    </div>'', nl,
         ''  '']\<close>

section \<open>Storage and network\<close>

text \<open>
  What the program changes outside itself: the entries of \<open>localStorage\<close>, and the
  network, of which the model keeps the number of retrievals issued. Access to
  \<open>localStorage\<close> raises when the browser denies it (\<open>denied\<close>), and \<open>setItem\<close> raises
  when the value does not fit the quota (\<open>capacity\<close>, a bound on the length of the
  stored text).
\<close>

record world =
  items :: "string \<Rightarrow> string option"
  denied :: bool
  capacity :: nat
  fetches :: nat

text \<open>
  A computation runs in a world and ends with a value or a raised error, in the world
  as it has become. \<open>js_try\<close> is \<open>try { ... } catch (error) { ... }\<close>.
\<close>

type_synonym 'a js = "world \<Rightarrow> (js_error + 'a) \<times> world"

definition js_return :: "'a \<Rightarrow> 'a js" where
  "js_return x w = (Inr x, w)"

definition js_throw :: "js_error \<Rightarrow> 'a js" where
  "js_throw e w = (Inl e, w)"

definition js_bind :: "'a js \<Rightarrow> ('a \<Rightarrow> 'b js) \<Rightarrow> 'b js" where
  "js_bind m f w = (case m w of (Inl e, w') \<Rightarrow> (Inl e, w') | (Inr x, w') \<Rightarrow> f x w')"

definition js_try :: "'a js \<Rightarrow> (js_error \<Rightarrow> 'a js) \<Rightarrow> 'a js" where
  "js_try m handler w = (case m w of (Inl e, w') \<Rightarrow> handler e w' | (Inr x, w') \<Rightarrow> (Inr x, w'))"

definition js_lift :: "js_error + 'a \<Rightarrow> 'a js" where
  "js_lift r = (case r of Inl e \<Rightarrow> js_throw e | Inr x \<Rightarrow> js_return x)"

definition getItem :: "string \<Rightarrow> string option js" where
  "getItem k w =
     (if denied w then (Inl (JsError SecurityError ''The operation is insecure.''), w)
      else (Inr (items w k), w))"

definition setItem :: "string \<Rightarrow> string \<Rightarrow> unit js" where
  "setItem k v w =
     (if denied w then (Inl (JsError SecurityError ''The operation is insecure.''), w)
      else if capacity w < length v then (Inl (JsError QuotaExceededError ''The quota has been exceeded.''), w)
      else (Inr (), w\<lparr>items := (items w)(k \<mapsto> v)\<rparr>))"

definition removeItem :: "string \<Rightarrow> unit js" where
  "removeItem k w =
     (if denied w then (Inl (JsError SecurityError ''The operation is insecure.''), w)
      else (Inr (), w\<lparr>items := (items w)(k := None)\<rparr>))"

text \<open>
  The network answers a retrieval with a response, or the retrieval fails and \<open>fetch\<close>
  rejects. The answer is an argument of the model; \<open>fetch\<close> counts the retrieval.
\<close>

datatype response = Response (status: nat) (body: string)

datatype fetch_outcome = Fulfilled response | Rejected js_error

definition ok :: "response \<Rightarrow> bool" where
  "ok r = (200 \<le> status r \<and> status r \<le> 299)"

definition fetch :: "fetch_outcome \<Rightarrow> response js" where
  "fetch outcome w =
     (case outcome of
        Fulfilled r \<Rightarrow> (Inr r, w\<lparr>fetches := fetches w + 1\<rparr>)
      | Rejected e \<Rightarrow> (Inl e, w\<lparr>fetches := fetches w + 1\<rparr>))"

section \<open>The cache\<close>

text \<open>Truthiness of a value, and \<open>Array.isArray\<close>.\<close>

definition truthy :: "jsval \<Rightarrow> bool" where
  "truthy v =
     (case v of
        JUndefined \<Rightarrow> False
      | JNull \<Rightarrow> False
      | JBool b \<Rightarrow> b
      | JNum n \<Rightarrow> n \<noteq> 0
      | JStr s \<Rightarrow> s \<noteq> []
      | JArr xs \<Rightarrow> True
      | JObj kvs \<Rightarrow> True)"

definition isArray :: "jsval \<Rightarrow> bool" where
  "isArray v = (case v of JArr xs \<Rightarrow> True | _ \<Rightarrow> False)"

text \<open>
  \<open>const { data, timestamp } = value\<close>: reading the two properties raises a
  \<open>TypeError\<close> on \<open>null\<close> and \<open>undefined\<close>; a property that the value does not have
  is \<open>undefined\<close>. An object from \<open>JSON.parse\<close> has each key once.
\<close>

definition property :: "jsval \<Rightarrow> string \<Rightarrow> jsval" where
  "property v k =
     (case v of
        JObj kvs \<Rightarrow> (case map_of kvs k of Some x \<Rightarrow> x | None \<Rightarrow> JUndefined)
      | _ \<Rightarrow> JUndefined)"

definition destructure :: "jsval \<Rightarrow> (jsval \<times> jsval) js" where
  "destructure v =
     (if v = JNull \<or> v = JUndefined
      then js_throw (JsError TypeError ''Cannot destructure property data'')
      else js_return (property v ''data'', property v ''timestamp''))"

text \<open>
  \<open>now - timestamp < CONFIG.cacheDuration\<close>. The subtraction converts the time stamp
  to a number; \<open>None\<close> is \<open>NaN\<close>, which makes the comparison false.
\<close>

definition toNumber :: "platform \<Rightarrow> jsval \<Rightarrow> int option" where
  "toNumber P v =
     (case v of
        JUndefined \<Rightarrow> None
      | JNull \<Rightarrow> Some 0
      | JBool b \<Rightarrow> Some (if b then 1 else 0)
      | JNum n \<Rightarrow> Some n
      | _ \<Rightarrow> objectToNumber P v)"

definition stillValid :: "platform \<Rightarrow> int \<Rightarrow> jsval \<Rightarrow> bool" where
  "stillValid P now timestamp =
     (case toNumber P timestamp of None \<Rightarrow> False | Some t \<Rightarrow> now - t < cacheDuration)"

text \<open>
  \<open>getCachedData()\<close>; \<open>now\<close> is what \<open>Date.now()\<close> returns. The messages to the console
  are left out here and below.
\<close>

definition getCachedData :: "platform \<Rightarrow> int \<Rightarrow> jsval js" where
  "getCachedData P now =
     js_try
       (js_bind (getItem cacheKey) (\<lambda>cached.
          case cached of
            None \<Rightarrow> js_return JNull
          | Some text \<Rightarrow>
              if text = [] then js_return JNull
              else
                js_bind (js_lift (JSON_parse P text)) (\<lambda>parsed.
                js_bind (destructure parsed) (\<lambda>(data, timestamp).
                  if stillValid P now timestamp then js_return data
                  else js_bind (removeItem cacheKey) (\<lambda>u. js_return JNull)))))
       (\<lambda>error. js_return JNull)"

definition cacheObject :: "jsval \<Rightarrow> int \<Rightarrow> jsval" where
  "cacheObject data now = JObj [(''data'', data), (''timestamp'', JNum now)]"

definition setCachedData :: "platform \<Rightarrow> int \<Rightarrow> jsval \<Rightarrow> unit js" where
  "setCachedData P now data =
     js_try
       (setItem cacheKey (JSON_stringify P (cacheObject data now)))
       (\<lambda>error. js_return ())"

definition clearCache :: "unit js" where
  "clearCache = js_try (removeItem cacheKey) (\<lambda>error. js_return ())"

section \<open>The loader\<close>

text \<open>
  \<open>loadArticles()\<close>. \<open>now1\<close> is the clock when the cache is read and \<open>now2\<close> the clock
  when the cache is written, after the retrieval; \<open>net\<close> is what the network answers.
  \<open>response.json()\<close> parses the body with the platform's \<open>JSON.parse\<close>.
\<close>

definition loadArticles :: "platform \<Rightarrow> int \<Rightarrow> int \<Rightarrow> fetch_outcome \<Rightarrow> jsval js" where
  "loadArticles P now1 now2 net =
     js_try
       (js_bind (getCachedData P now1) (\<lambda>cached.
          if truthy cached then js_return cached
          else
            js_bind (fetch net) (\<lambda>response.
              if \<not> ok response
              then js_throw (JsError Error (''HTTP error! status: '' @ decimal (status response)))
              else
                js_bind (js_lift (JSON_parse P (body response))) (\<lambda>data.
                  if \<not> isArray data
                  then js_throw (JsError Error ''Data format invalid: expected array'')
                  else js_bind (setCachedData P now2 data) (\<lambda>u. js_return data)))))
       (\<lambda>error. js_throw (JsError Error (''Gagal memuat data: '' @ message error)))"

text \<open>The value that the read of the cache gives \<open>loadArticles\<close>, and the world after it.\<close>

definition cacheRead :: "platform \<Rightarrow> int \<Rightarrow> world \<Rightarrow> jsval" where
  "cacheRead P now w = (case fst (getCachedData P now w) of Inr v \<Rightarrow> v | Inl e \<Rightarrow> JNull)"

definition afterRead :: "platform \<Rightarrow> int \<Rightarrow> world \<Rightarrow> world" where
  "afterRead P now w = snd (getCachedData P now w)"

text \<open>
  What a retrieval gives, as the program judges it: it fails with a cause when the
  network fails, when the status is not a success, when the body does not parse, and
  when it parses to something that is not an array; otherwise it gives the array, of
  which \<open>Array.isArray\<close> does not look at the elements.
\<close>

definition retrieval :: "platform \<Rightarrow> fetch_outcome \<Rightarrow> string + jsval" where
  "retrieval P net =
     (case net of
        Rejected e \<Rightarrow> Inl (message e)
      | Fulfilled r \<Rightarrow>
          if ok r
          then (case JSON_parse P (body r) of
                  Inl e \<Rightarrow> Inl (message e)
                | Inr data \<Rightarrow>
                    if isArray data then Inr data
                    else Inl ''Data format invalid: expected array'')
          else Inl (''HTTP error! status: '' @ decimal (status r)))"

text \<open>
  The specification's wording of a well-formed body: it decodes to an ordered sequence
  of records, an array whose elements are all objects.
\<close>

definition isRecord :: "jsval \<Rightarrow> bool" where
  "isRecord v = (case v of JObj kvs \<Rightarrow> True | _ \<Rightarrow> False)"

definition isRecordSequence :: "jsval \<Rightarrow> bool" where
  "isRecordSequence v = (case v of JArr xs \<Rightarrow> list_all isRecord xs | _ \<Rightarrow> False)"

section \<open>The filter\<close>

text \<open>
  \<open>applyFilters\<close> of \<open>initArticleList\<close>, as a function of the three variables it reads:
  the list it computes. \<open>searchQuery\<close> is a string, so \<open>searchQuery || ''\<close> is the string
  itself; \<open>s.includes(q)\<close> holds when \<open>q\<close> is a contiguous part of \<open>s\<close>.
  \<open>array.filter(callback)\<close> visits the elements in the order of their indices and
  appends to its result those for which the callback holds.
\<close>

fun filterLoop :: "('a \<Rightarrow> bool) \<Rightarrow> 'a list \<Rightarrow> 'a list \<Rightarrow> 'a list" where
  "filterLoop callback [] result = result"
| "filterLoop callback (x # xs) result =
     filterLoop callback xs (if callback x then result @ [x] else result)"

definition js_filter :: "('a \<Rightarrow> bool) \<Rightarrow> 'a list \<Rightarrow> 'a list" where
  "js_filter callback xs = filterLoop callback xs []"

definition applyFilters :: "platform \<Rightarrow> article list \<Rightarrow> string \<Rightarrow> string \<Rightarrow> article list" where
  "applyFilters P articles activeTopicFilter searchQuery =
     (let query = trim (toLowerCase P searchQuery)
      in js_filter (\<lambda>article.
           let matchesTopic =
                 (activeTopicFilter = ''all'' \<or> topic article = Some activeTopicFilter);
               matchesSearch =
                 (query = []
                  \<or> sublist query (toLowerCase P (orElse (title article) []))
                  \<or> sublist query (toLowerCase P (orElse (excerpt article) [])))
           in matchesTopic \<and> matchesSearch) articles)"

text \<open>
  The two predicates of the specification. The text of a field is what the record
  holds, the empty text when the field is absent. \<open>queryPredicate\<close> looks for the
  query in lower case and trimmed. \<open>claimedQueryPredicate\<close> is the query predicate word
  for word: the query is trimmed to see whether it is empty, and what is looked for is
  the query in lower case.
\<close>

definition fieldText :: "string option \<Rightarrow> string" where
  "fieldText x = (case x of None \<Rightarrow> [] | Some s \<Rightarrow> s)"

definition topicPredicate :: "string \<Rightarrow> article \<Rightarrow> bool" where
  "topicPredicate activeTopic a = (activeTopic = ''all'' \<or> topic a = Some activeTopic)"

definition queryPredicate :: "platform \<Rightarrow> string \<Rightarrow> article \<Rightarrow> bool" where
  "queryPredicate P query a =
     (trim (toLowerCase P query) = []
      \<or> sublist (trim (toLowerCase P query)) (toLowerCase P (fieldText (title a)))
      \<or> sublist (trim (toLowerCase P query)) (toLowerCase P (fieldText (excerpt a))))"

definition claimedQueryPredicate :: "platform \<Rightarrow> string \<Rightarrow> article \<Rightarrow> bool" where
  "claimedQueryPredicate P query a =
     (trim query = []
      \<or> sublist (toLowerCase P query) (toLowerCase P (fieldText (title a)))
      \<or> sublist (toLowerCase P query) (toLowerCase P (fieldText (excerpt a))))"

section \<open>The detail page\<close>

text \<open>
  What \<open>initArticleDetail\<close> leaves on the page: the markup in the mount element and the
  document title (\<open>None\<close>: not set). The description \<open>meta\<close> element and the scrolling
  are left out. \<open>mounted\<close> says whether the page has the element \<open>detailMount\<close>,
  \<open>articleId\<close> is the \<open>id\<close> parameter of the address (\<open>None\<close>: not given), and \<open>loaded\<close>
  is how \<open>await loadArticles()\<close> ended, the collection read as article records.
\<close>

datatype page = Untouched | Page (mountHTML: string) (documentTitle: "string option")

definition chooseArticle :: "string option \<Rightarrow> article list \<Rightarrow> js_error + article" where
  "chooseArticle articleId articles =
     (let article = find (\<lambda>a. Some (article_id a) = articleId) articles;
          article = (if article = None \<and> length articles > 0 then Some (articles ! 0) else article)
      in case article of
           None \<Rightarrow> Inl (JsError Error ''Tidak ada artikel tersedia. Periksa file data/articles.txt'')
         | Some a \<Rightarrow> Inr a)"

definition initArticleDetail ::
  "platform \<Rightarrow> bool \<Rightarrow> string option \<Rightarrow> js_error + article list \<Rightarrow> page" where
  "initArticleDetail P mounted articleId loaded =
     (if \<not> mounted then Untouched
      else
        (case (case loaded of Inl e \<Rightarrow> Inl e | Inr articles \<Rightarrow> chooseArticle articleId articles) of
           Inl error \<Rightarrow> Page (showError (message error)) None
         | Inr article \<Rightarrow>
             Page (generateDetailHTML P article)
                  (Some (jsString (title article) @ '' - Pajajaran Physical Society''))))"

section \<open>A sample platform\<close>

text \<open>
  To run the model on concrete inputs, a platform that answers as a browser does on
  the inputs used in this theory: the fragment parser and \<open>JSON.parse\<close> as tables of
  those inputs, the serializer of the HTML standard for the node kinds of the model,
  \<open>JSON.stringify\<close> for the values of the model, lower case for ASCII letters.
\<close>

definition sampleParseHTML :: "string \<Rightarrow> node list" where
  \<open>sampleParseHTML html =
     (if html = ''<p>Konten tidak tersedia.</p>''
        then [Element ''p'' [] [Text ''Konten tidak tersedia.'']]
      else if html = ''<p onclick="x()">Halo</p><script>alert(1)</script>''
        then [Element ''p'' [(''onclick'', ''x()'')] [Text ''Halo''],
              Element ''script'' [] [Text ''alert(1)'']]
      else if html = ''<template><script>alert(1)</script><img src="x" onerror="alert(2)"></template>''
        then [Template []
               [Element ''script'' [] [Text ''alert(1)''],
                Element ''img'' [(''src'', ''x''), (''onerror'', ''alert(2)'')] []]]
      else [Text html])\<close>

definition escapeAttribute :: "string \<Rightarrow> string" where
  \<open>escapeAttribute s =
     concat (map (\<lambda>c. if c = CHR ''&'' then ''&amp;'' else if c = CHR 0x22 then ''&quot;'' else [c]) s)\<close>

definition serializeAttributes :: "(string \<times> string) list \<Rightarrow> string" where
  \<open>serializeAttributes ats =
     concat (map (\<lambda>attr. '' '' @ fst attr @ ''="'' @ escapeAttribute (snd attr) @ ''"'') ats)\<close>

definition voidElement :: "string \<Rightarrow> bool" where
  "voidElement t =
     (t \<in> set [''area'', ''base'', ''br'', ''col'', ''embed'', ''hr'', ''img'', ''input'',
                ''link'', ''meta'', ''source'', ''track'', ''wbr''])"

definition rawTextElement :: "string \<Rightarrow> bool" where
  "rawTextElement t =
     (t \<in> set [''style'', ''script'', ''xmp'', ''iframe'', ''noembed'', ''noframes'',
                ''plaintext'', ''noscript''])"

fun serializeNode :: "bool \<Rightarrow> node \<Rightarrow> string" where
  "serializeNode raw (Element t ats cs) =
     ''<'' @ t @ serializeAttributes ats @ ''>''
     @ (if voidElement t then []
        else concat (map (serializeNode (rawTextElement t)) cs) @ ''</'' @ t @ ''>'')"
| "serializeNode raw (Template ats cs) =
     ''<template'' @ serializeAttributes ats @ ''>''
     @ concat (map (serializeNode False) cs) @ ''</template>''"
| "serializeNode raw (Text s) = (if raw then s else escapeText s)"
| "serializeNode raw (Comment s) = ''<!--'' @ s @ ''-->''"

definition sampleSerializeHTML :: "node list \<Rightarrow> string" where
  "sampleSerializeHTML nodes = concat (map (serializeNode False) nodes)"

definition sampleDate :: "string \<Rightarrow> js_error + string" where
  "sampleDate s =
     (if s = ''2024-01-05T00:00:00'' then Inr ''05 Jan 2024'' else Inr ''Invalid Date'')"

definition decimalInt :: "int \<Rightarrow> string" where
  "decimalInt n = (if n < 0 then ''-'' @ decimal (nat (- n)) else decimal (nat n))"

fun joinWith :: "string \<Rightarrow> string list \<Rightarrow> string" where
  "joinWith d [] = []"
| "joinWith d [x] = x"
| "joinWith d (x # y # r) = x @ d @ joinWith d (y # r)"

fun sampleStringify :: "jsval \<Rightarrow> string" where
  "sampleStringify JUndefined = ''null''"
| "sampleStringify JNull = ''null''"
| "sampleStringify (JBool b) = (if b then ''true'' else ''false'')"
| "sampleStringify (JNum n) = decimalInt n"
| "sampleStringify (JStr s) = [CHR 0x22] @ s @ [CHR 0x22]"
| "sampleStringify (JArr xs) = ''['' @ joinWith '','' (map sampleStringify xs) @ '']''"
| "sampleStringify (JObj kvs) =
     ''{'' @ joinWith '',''
              (map (\<lambda>kv. [CHR 0x22] @ fst kv @ [CHR 0x22] @ '':'' @ sampleStringify (snd kv)) kvs)
     @ ''}''"

text \<open>The collection of two articles that the examples use, and one more value.\<close>

definition sampleData :: jsval where
  "sampleData =
     JArr [JObj [(''id'', JStr ''a1''), (''topic'', JStr ''Berita''), (''title'', JStr ''Gempa'')],
           JObj [(''id'', JStr ''a2''), (''topic'', JStr ''Edukasi''), (''title'', JStr ''Fisika Dasar'')]]"

definition sampleText :: string where
  \<open>sampleText = ''[{"id":"a1","topic":"Berita","title":"Gempa"},{"id":"a2","topic":"Edukasi","title":"Fisika Dasar"}]''\<close>

definition sampleParseJSON :: "string \<Rightarrow> js_error + jsval" where
  \<open>sampleParseJSON s =
     (if s = sampleText then Inr sampleData
      else if s = ''{"data":'' @ sampleText @ '',"timestamp":1000}''
        then Inr (JObj [(''data'', sampleData), (''timestamp'', JNum 1000)])
      else if s = ''{"id":"a1"}'' then Inr (JObj [(''id'', JStr ''a1'')])
      else if s = ''[1,null]'' then Inr (JArr [JNum 1, JNull])
      else if s = ''null'' then Inr JNull
      else Inl (JsError SyntaxError ''Unexpected end of JSON input''))\<close>

definition lowerChar :: "char \<Rightarrow> char" where
  "lowerChar c =
     (if 65 \<le> (of_char c :: nat) \<and> (of_char c :: nat) \<le> 90 then char_of (of_char c + 32 :: nat) else c)"

definition samplePlatform :: platform where
  "samplePlatform =
     \<lparr>parseHTML = sampleParseHTML,
      serializeHTML = sampleSerializeHTML,
      toLocaleDateString = sampleDate,
      JSON_parse = sampleParseJSON,
      JSON_stringify = sampleStringify,
      toLowerCase = map lowerChar,
      objectToNumber = (\<lambda>v. None)\<rparr>"

definition emptyWorld :: world where
  "emptyWorld = \<lparr>items = (\<lambda>k. None), denied = False, capacity = 5000000, fetches = 0\<rparr>"

text \<open>A network that answers with the sample collection, and one that is down.\<close>

definition sampleResponse :: fetch_outcome where
  "sampleResponse = Fulfilled (Response 200 sampleText)"

definition networkDown :: fetch_outcome where
  "networkDown = Rejected (JsError TypeError ''Failed to fetch'')"

text \<open>The two articles of the sample collection as records.\<close>

definition sampleArticle1 :: article where
  "sampleArticle1 =
     \<lparr>article_id = ''a1'', title = Some ''Gempa'', topic = Some ''Berita'', excerpt = None,
      author = None, date = None, cover = None, content = None\<rparr>"

definition sampleArticle2 :: article where
  "sampleArticle2 =
     \<lparr>article_id = ''a2'', title = Some ''Fisika Dasar'', topic = Some ''Edukasi'', excerpt = None,
      author = None, date = None, cover = None, content = None\<rparr>"

text \<open>A storage whose cache entry is not JSON, and a content with a \<open>template\<close> element.\<close>

definition corruptWorld :: world where
  "corruptWorld = emptyWorld\<lparr>items := (items emptyWorld)(cacheKey \<mapsto> ''{'')\<rparr>"

definition templateInput :: string where
  \<open>templateInput = ''<template><script>alert(1)</script><img src="x" onerror="alert(2)"></template>''\<close>

text \<open>An article whose escaped fields all carry a \<open>script\<close> element.\<close>

definition scriptArticle :: article where
  "scriptArticle =
     \<lparr>article_id = ''<script>alert(1)</script>'',
      title = Some ''<script>alert(1)</script>'',
      topic = Some ''<script>alert(1)</script>'',
      excerpt = Some ''<script>alert(1)</script>'',
      author = Some ''<script>alert(1)</script>'',
      date = Some ''<script>alert(1)</script>'',
      cover = Some ''<script>alert(1)</script>'',
      content = None\<rparr>"

section \<open>Notions used in the properties\<close>

text \<open>The tokens of a text, joined by single spaces (texts as lists of characters).\<close>

fun joinSp :: "string list list \<Rightarrow> string list" where
  "joinSp [] = []"
| "joinSp [t] = t"
| "joinSp (t # u # ts) = t @ '' '' # joinSp (u # ts)"

text \<open>
  A text is \<open>lt_guarded\<close> when each \<open><\<close> in it is followed, in the text itself, by two
  characters that are not \<open>sc\<close>. No occurrence of \<open><script\<close> starts in such a text,
  whatever is written after it.
\<close>

fun not_sc :: "string \<Rightarrow> bool" where
  "not_sc (a # b # r) = (\<not> (a = CHR ''s'' \<and> b = CHR ''c''))"
| "not_sc [a] = False"
| "not_sc [] = False"

fun lt_guarded :: "string \<Rightarrow> bool" where
  "lt_guarded [] = True"
| "lt_guarded (c # cs) = ((if c = CHR ''<'' then not_sc cs else True) \<and> lt_guarded cs)"

text \<open>An attribute whose name begins with \<open>on\<close>.\<close>

definition isHandler :: "string \<times> string \<Rightarrow> bool" where
  "isHandler attr = prefix ''on'' (fst attr)"

text \<open>
  A node is \<open>clean\<close> when, outside template contents, it has no \<open>script\<close> element and
  no attribute whose name begins with \<open>on\<close>.
\<close>

fun clean :: "node \<Rightarrow> bool" where
  "clean (Element t ats cs) =
     (t \<noteq> ''script'' \<and> list_all (\<lambda>a. \<not> isHandler a) ats \<and> list_all clean cs)"
| "clean (Template ats cs) = list_all (\<lambda>a. \<not> isHandler a) ats"
| "clean (Text s) = True"
| "clean (Comment s) = True"

section \<open>Properties of the reading time\<close>

lemma isSpace_space: "isSpace '' ''"
  by (simp add: isSpace_def whiteSpace_def)

lemma collapseWs_word:
  "\<forall>x\<in>set w. \<not> isSpace x \<Longrightarrow> collapseWs (w @ r) = w @ collapseWs r"
  by (induction w) simp_all

lemma tokens_dropWhile: "tokens (dropWhile isSpace s) = tokens s"
  by (induction s) simp_all

lemma takeWhile_nonspace: "x \<in> set (takeWhile (\<lambda>x. \<not> isSpace x) cs) \<Longrightarrow> \<not> isSpace x"
  by (rule set_takeWhileD [THEN conjunct2])

lemma tokens_nonempty: "t \<in> set (tokens s) \<Longrightarrow> t \<noteq> [] \<and> (\<forall>x\<in>set t. \<not> isSpace x)"
proof (induction s rule: tokens.induct)
  case 1
  then show ?case by simp
next
  case (2 c cs)
  show ?case
  proof (cases "isSpace c")
    case True
    then have "t \<in> set (tokens cs)" using 2(3) by simp
    then show ?thesis using 2(1) True by blast
  next
    case False
    then have "t = c # takeWhile (\<lambda>x. \<not> isSpace x) cs
        \<or> t \<in> set (tokens (dropWhile (\<lambda>x. \<not> isSpace x) cs))"
      using 2(3) by simp
    then show ?thesis
    proof
      assume "t = c # takeWhile (\<lambda>x. \<not> isSpace x) cs"
      then show ?thesis using False takeWhile_nonspace by auto
    next
      assume "t \<in> set (tokens (dropWhile (\<lambda>x. \<not> isSpace x) cs))"
      then show ?thesis using 2(2) False by blast
    qed
  qed
qed

lemma trim_space_Cons: "isSpace c \<Longrightarrow> trimChars (c # s) = trimChars s"
  by (simp add: trimChars_def)

lemma trimEnd_Cons:
  "trimEnd (c # s) = (if trimEnd s = [] \<and> isSpace c then [] else c # trimEnd s)"
proof (cases "\<forall>x\<in>set (rev s). isSpace x")
  case True
  then have a: "dropWhile isSpace (rev s) = []"
    using dropWhile_eq_Nil_conv [of isSpace "rev s"] by blast
  have b: "dropWhile isSpace (rev s @ [c]) = dropWhile isSpace [c]"
    using True by (intro dropWhile_append2) blast
  show ?thesis
    unfolding trimEnd_def rev.simps a b by simp
next
  case False
  then obtain x where x: "x \<in> set (rev s)" "\<not> isSpace x" by blast
  have a: "dropWhile isSpace (rev s) \<noteq> []"
    using False dropWhile_eq_Nil_conv [of isSpace "rev s"] by blast
  have b: "dropWhile isSpace (rev s @ [c]) = dropWhile isSpace (rev s) @ [c]"
    using x by (rule dropWhile_append1)
  show ?thesis
    unfolding trimEnd_def rev.simps b using a by simp
qed

lemma trimEnd_Nil: "trimEnd [] = []"
  by (simp add: trimEnd_def)

lemma trimEnd_append_word:
  "trimEnd (w @ s) = (if trimEnd s = [] then trimEnd w else w @ trimEnd s)"
  by (induction w) (simp_all add: trimEnd_Cons trimEnd_Nil)

lemma trimEnd_eq_Nil: "trimEnd s = [] \<longleftrightarrow> (\<forall>x\<in>set s. isSpace x)"
  by (simp add: trimEnd_def)

lemma trimEnd_word: "s \<noteq> [] \<Longrightarrow> \<not> isSpace (last s) \<Longrightarrow> trimEnd s = s"
  by (cases s rule: rev_cases) (simp_all add: trimEnd_def)

lemma visible_join: "trimChars (collapseWs s) = joinSp (tokens s)"
proof (induction s rule: tokens.induct)
  case 1
  show ?case by (simp add: trimChars_def trimEnd_def)
next
  case (2 c cs)
  show ?case
  proof (cases "isSpace c")
    case True
    have "trimChars (collapseWs (c # cs)) = trimChars (collapseWs (dropWhile isSpace cs))"
      using True by (simp add: trim_space_Cons isSpace_space)
    also have "\<dots> = trimChars (collapseWs cs)"
    proof (cases cs)
      case Nil
      then show ?thesis by simp
    next
      case (Cons d ds)
      then show ?thesis
        by (cases "isSpace d") (simp_all add: trim_space_Cons isSpace_space)
    qed
    also have "\<dots> = joinSp (tokens cs)"
      using 2(1) True by simp
    finally show ?thesis using True by simp
  next
    case False
    define w where "w = takeWhile (\<lambda>x. \<not> isSpace x) (c # cs)"
    define r where "r = dropWhile (\<lambda>x. \<not> isSpace x) cs"
    have wr: "c # cs = w @ r" and w_ne: "w \<noteq> []" and w_ns: "\<forall>x\<in>set w. \<not> isSpace x"
      using False by (auto simp: w_def r_def dest: set_takeWhileD)
    have hdw: "\<not> isSpace (hd w)" and lastw: "\<not> isSpace (last w)"
      using w_ne w_ns by auto
    have IH: "trimChars (collapseWs r) = joinSp (tokens r)"
      using 2(2) False by (simp add: r_def)
    have tok: "tokens (c # cs) = w # tokens r"
      using False by (simp add: w_def r_def)
    have col: "collapseWs (c # cs) = w @ collapseWs r"
      unfolding wr using w_ns by (rule collapseWs_word)
    have tr: "trimChars (w @ y) = (if trimEnd y = [] then w else w @ trimEnd y)" for y
    proof -
      have "dropWhile isSpace (w @ y) = w @ y"
        using w_ne hdw by (cases w) simp_all
      then show ?thesis
        using w_ne lastw by (simp add: trimChars_def trimEnd_append_word trimEnd_word)
    qed
    show ?thesis
    proof (cases r)
      case Nil
      then show ?thesis using tok col tr [of "[]"] by (simp add: trimEnd_def)
    next
      case (Cons d ds)
      have d: "isSpace d"
        using Cons hd_dropWhile [of "\<lambda>x. \<not> isSpace x" cs] by (auto simp: r_def)
      define z where "z = collapseWs (dropWhile isSpace ds)"
      have cr: "collapseWs r = '' '' # z"
        using Cons d by (simp add: z_def)
      have trz: "trimChars (collapseWs r) = trimChars z"
        by (simp add: cr trim_space_Cons isSpace_space)
      show ?thesis
      proof (cases "dropWhile isSpace ds")
        case Nil
        have "z = []" unfolding z_def Nil by simp
        moreover have "tokens r = []"
          using Cons d tokens_dropWhile [of ds] unfolding Nil by simp
        ultimately show ?thesis
          using tok col cr tr [of "'' '' # z"] by (simp add: trimEnd_def isSpace_space)
      next
        case (Cons e es)
        have e: "\<not> isSpace e"
          using Cons hd_dropWhile [of isSpace ds] by auto
        have zz: "z = e # collapseWs es"
          using Cons e by (simp add: z_def)
        have "trimChars z = trimEnd z"
          using zz e by (simp add: trimChars_def)
        then have te: "trimEnd z = joinSp (tokens r)"
          using trz IH by simp
        have ne: "trimEnd z \<noteq> []"
          using zz e by (auto simp: trimEnd_eq_Nil)
        then obtain t ts where tt: "tokens r = t # ts"
          using te by (cases "tokens r") auto
        have "trimChars (collapseWs (c # cs)) = w @ '' '' # trimEnd z"
          using col cr tr [of "'' '' # z"] ne by (simp add: trimEnd_Cons)
        then show ?thesis
          using tok te tt by simp
      qed
    qed
  qed
qed

lemma split_on_word:
  "'' '' \<notin> set t \<Longrightarrow> split_on '' '' (t @ '' '' # s) = t # split_on '' '' s"
  by (induction t) (auto split: list.splits)

lemma split_on_single: "'' '' \<notin> set t \<Longrightarrow> split_on '' '' t = [t]"
  by (induction t) (auto split: list.splits)

lemma split_on_join:
  "ts \<noteq> [] \<Longrightarrow> \<forall>t\<in>set ts. '' '' \<notin> set t \<Longrightarrow> split_on '' '' (joinSp ts) = ts"
  by (induction ts rule: joinSp.induct) (simp_all add: split_on_word split_on_single)

lemma joinSp_eq_Nil: "\<forall>t\<in>set ts. t \<noteq> [] \<Longrightarrow> joinSp ts = [] \<longleftrightarrow> ts = []"
  by (induction ts rule: joinSp.induct) simp_all

lemma words_eq_wordCount:
  "(if visibleText html \<noteq> [] then length (split_on '' '' (visibleText html)) else 0) = wordCount html"
proof -
  let ?ts = "tokens (stripTags (chars html))"
  have v: "visibleText html = joinSp ?ts"
    by (simp add: visibleText_def visible_join)
  have ne: "\<forall>t\<in>set ?ts. t \<noteq> []" and ns: "\<forall>t\<in>set ?ts. '' '' \<notin> set t"
    using tokens_nonempty [of _ "stripTags (chars html)"] isSpace_space by auto
  show ?thesis
  proof (cases "?ts = []")
    case True
    then show ?thesis by (simp add: v wordCount_def)
  next
    case False
    then have "joinSp ?ts \<noteq> []" using joinSp_eq_Nil [OF ne] by simp
    then show ?thesis
      using split_on_join [OF False ns] by (simp add: v wordCount_def)
  qed
qed

lemma chars_ascii:
  "\<forall>c\<in>set s. (of_char c :: nat) < 0x80 \<Longrightarrow> chars (s @ r) = map (\<lambda>c. [c]) s @ chars r"
  by (induction s) (simp_all add: continuationBytes_def)

lemma chars_block: "chars (''<b>kata</b> '' @ r) = map (\<lambda>c. [c]) ''<b>kata</b> '' @ chars r"
  by (rule chars_ascii) simp

lemma stripTags_block:
  "stripTags (map (\<lambda>c. [c]) ''<b>kata</b> '' @ r) = map (\<lambda>c. [c]) '' kata  '' @ stripTags r"
  by simp

lemma tokens_block:
  "tokens (map (\<lambda>c. [c]) '' kata  '' @ r) = map (\<lambda>c. [c]) ''kata'' # tokens r"
  by (simp add: isSpace_def whiteSpace_def)

lemma wordCount_blocks: "wordCount (concat (replicate n ''<b>kata</b> '')) = n"
  unfolding wordCount_def
  by (induction n)
     (simp_all only: replicate.simps concat.simps chars_block stripTags_block tokens_block
        chars.simps stripTags.simps tokens.simps list.size)

text \<open>A no-break space separates words as a space does.\<close>

lemma wordCount_no_break_space: "wordCount (''a'' @ [CHR 0xC2, CHR 0xA0] @ ''a'') = 2"
  by (simp add: wordCount_def isSpace_def whiteSpace_def continuationBytes_def)

lemma readingTime_by_wordCount:
  "calculateReadingTime html = max 1 (nat \<lceil>real (wordCount html) / real wordsPerMinute\<rceil>)"
  unfolding calculateReadingTime_def Let_def words_eq_wordCount ..

lemma wordCount_word: "wordCount (''a '' @ r) = Suc (wordCount r)"
  by (simp add: wordCount_def continuationBytes_def isSpace_def whiteSpace_def)

lemma wordCount_words: "wordCount (concat (replicate n ''a '') @ r) = n + wordCount r"
proof (induction n)
  case 0
  show ?case by simp
next
  case (Suc n)
  have "concat (replicate (Suc n) ''a '') @ r = ''a '' @ (concat (replicate n ''a '') @ r)"
    by simp
  then show ?case using Suc wordCount_word [of "concat (replicate n ''a '') @ r"] by simp
qed

text \<open>
  199 words, then two words with a no-break space between them: 201 words, 2 minutes.
\<close>

lemma readingTime_no_break_space:
  "calculateReadingTime (concat (replicate 199 ''a '') @ ''a'' @ [CHR 0xC2, CHR 0xA0] @ ''a'') = 2"
  unfolding readingTime_by_wordCount wordCount_words wordCount_no_break_space
  by (simp add: wordsPerMinute_def)

text \<open>
  Claim C8. \<open>calculateReadingTime\<close> is \<open>max(1, ceil(wordCount / wordsPerMinute))\<close>, where
  \<open>wordCount\<close> counts the white-space-delimited tokens of the text left after the markup
  is stripped; so content with no visible word, and content with exactly
  \<open>wordsPerMinute\<close> (200) words, reads in 1 minute, and content with
  \<open>wordsPerMinute * 3 + 1\<close> (601) words in 4 minutes.
\<close>

theorem calculateReadingTime_formula:
  "calculateReadingTime html = max 1 (nat \<lceil>real (wordCount html) / real wordsPerMinute\<rceil>)
   \<and> (wordCount html = 0 \<longrightarrow> calculateReadingTime html = 1)
   \<and> (wordCount html = wordsPerMinute \<longrightarrow> calculateReadingTime html = 1)
   \<and> (wordCount html = wordsPerMinute * 3 + 1 \<longrightarrow> calculateReadingTime html = 4)"
  unfolding readingTime_by_wordCount by (simp add: wordsPerMinute_def)

theorem calculateReadingTime_formula_witness:
  "wordCount ''<p> </p>'' = 0 \<and> calculateReadingTime ''<p> </p>'' = 1
   \<and> wordCount (concat (replicate 200 ''<b>kata</b> '')) = wordsPerMinute
   \<and> calculateReadingTime (concat (replicate 200 ''<b>kata</b> '')) = 1
   \<and> wordCount (concat (replicate 601 ''<b>kata</b> '')) = wordsPerMinute * 3 + 1
   \<and> calculateReadingTime (concat (replicate 601 ''<b>kata</b> '')) = 4"
proof -
  have z: "wordCount ''<p> </p>'' = 0"
    by (simp add: wordCount_def isSpace_def whiteSpace_def continuationBytes_def)
  show ?thesis
    using calculateReadingTime_formula [of "''<p> </p>''"]
      calculateReadingTime_formula [of "concat (replicate 200 ''<b>kata</b> '')"]
      calculateReadingTime_formula [of "concat (replicate 601 ''<b>kata</b> '')"]
    unfolding wordCount_blocks z wordsPerMinute_def by simp
qed

section \<open>Properties of the markup\<close>

lemma not_sc_append: "not_sc cs \<Longrightarrow> not_sc (cs @ b)"
  by (cases cs rule: not_sc.cases) simp_all

lemma lt_guarded_append: "lt_guarded a \<Longrightarrow> lt_guarded b \<Longrightarrow> lt_guarded (a @ b)"
  by (induction a) (simp_all add: not_sc_append)

lemma lt_guarded_concat: "list_all lt_guarded ps \<Longrightarrow> lt_guarded (concat ps)"
  by (induction ps) (simp_all add: lt_guarded_append)

lemma noLt_guarded: "CHR ''<'' \<notin> set s \<Longrightarrow> lt_guarded s"
  by (induction s) auto

lemma escapeChar_noLt: "CHR ''<'' \<notin> set (escapeChar c)"
  by (simp add: escapeChar_def)

lemma escapeText_noLt: "CHR ''<'' \<notin> set (escapeText s)"
  by (induction s rule: escapeText.induct) (simp_all add: escapeChar_noLt)

lemma escapeHTML_noLt: "CHR ''<'' \<notin> set (escapeHTML x)"
  by (simp add: escapeHTML_def escapeText_noLt)

lemma escapeHTML_guarded: "lt_guarded (escapeHTML x)"
  by (rule noLt_guarded) (rule escapeHTML_noLt)

lemma digit_noLt: "digit n \<noteq> CHR ''<''"
proof -
  have "digit n \<in> set ''0123456789''"
    unfolding digit_def by (rule nth_mem) simp
  then show ?thesis by auto
qed

lemma decimal_noLt: "CHR ''<'' \<notin> set (decimal n)"
proof (induction n rule: decimal.induct)
  case (1 n)
  show ?case
  proof (cases "n < 10")
    case True
    then show ?thesis using digit_noLt [of n] by (subst decimal.simps) auto
  next
    case False
    then show ?thesis using 1 digit_noLt [of n] by (subst decimal.simps) auto
  qed
qed

lemma decimal_guarded: "lt_guarded (decimal n)"
  by (rule noLt_guarded) (rule decimal_noLt)

lemma hexDigit_noLt: "hexDigit n \<noteq> CHR ''<''"
proof -
  have "hexDigit n \<in> set ''0123456789ABCDEF''"
    unfolding hexDigit_def by (rule nth_mem) simp
  then show ?thesis by auto
qed

lemma percentEncode_noLt: "CHR ''<'' \<notin> set (percentEncode c)"
proof (cases "unreserved c")
  case True
  then have "c \<noteq> CHR ''<''" by (auto simp: unreserved_def)
  then show ?thesis using True by (simp add: percentEncode_def)
next
  case False
  then show ?thesis
    using hexDigit_noLt [of "of_char c div 16"] hexDigit_noLt [of "of_char c mod 16"]
    by (auto simp: percentEncode_def)
qed

lemma encodeURIComponent_guarded: "lt_guarded (encodeURIComponent s)"
  by (rule noLt_guarded) (simp add: encodeURIComponent_def percentEncode_noLt)

lemma nl_guarded: "lt_guarded nl"
  by (simp add: nl_def)

lemmas guarded_parts =
  escapeHTML_guarded decimal_guarded encodeURIComponent_guarded nl_guarded

lemma cardCoverHTML_guarded: "lt_guarded (cardCoverHTML a)"
proof (cases "truthy_str (cover a)")
  case True
  then show ?thesis
    unfolding cardCoverHTML_def
    by (simp only: if_True) (intro lt_guarded_concat, simp add: guarded_parts)
next
  case False
  then show ?thesis by (simp add: cardCoverHTML_def)
qed

lemma generateCardHTML_guarded: "lt_guarded (generateCardHTML P a)"
  unfolding generateCardHTML_def Let_def
  by (intro lt_guarded_concat) (simp add: guarded_parts cardCoverHTML_guarded)

lemma detailCoverHTML_guarded: "lt_guarded (detailCoverHTML a)"
proof (cases "truthy_str (cover a)")
  case True
  then show ?thesis
    unfolding detailCoverHTML_def
    by (simp only: if_True) (intro lt_guarded_concat, simp add: guarded_parts)
next
  case False
  then show ?thesis by (simp add: detailCoverHTML_def)
qed

lemma detailHead_guarded: "lt_guarded c \<Longrightarrow> lt_guarded (concat (detailHead P a c n))"
  unfolding detailHead_def
  by (intro lt_guarded_concat) (simp add: guarded_parts)

lemma detailTail_guarded: "lt_guarded (concat (detailTail P a n))"
  unfolding detailTail_def
  by (intro lt_guarded_concat) (simp add: guarded_parts)

lemma script_starts_outside:
  "lt_guarded s \<Longrightarrow> prefix ''<script'' (drop i (s @ t)) \<Longrightarrow> length s \<le> i"
proof (induction s arbitrary: i)
  case Nil
  then show ?case by simp
next
  case (Cons c cs)
  show ?case
  proof (cases i)
    case 0
    then have p: "c = CHR ''<''" "prefix ''script'' (cs @ t)"
      using Cons.prems(2) by simp_all
    then have "not_sc cs" using Cons.prems(1) by simp
    then have False using p(2) by (cases cs rule: not_sc.cases) simp_all
    then show ?thesis ..
  next
    case (Suc j)
    then have "prefix ''<script'' (drop j (cs @ t))"
      using Cons.prems(2) by simp
    moreover have "lt_guarded cs" using Cons.prems(1) by simp
    ultimately have "length cs \<le> j" by (rule Cons.IH [rotated])
    then show ?thesis using Suc by simp
  qed
qed

lemma guarded_no_script: "lt_guarded s \<Longrightarrow> \<not> sublist ''<script'' s"
proof
  assume g: "lt_guarded s" and "sublist ''<script'' s"
  then obtain ps ss where e: "s = ps @ ''<script'' @ ss"
    by (auto simp: sublist_def)
  then have "prefix ''<script'' (drop (length ps) (s @ []))" by simp
  then have "length s \<le> length ps" using g by (rule script_starts_outside [rotated])
  then show False using e by simp
qed

lemma append_eq_split:
  assumes "a @ b = c @ d" and "length a \<le> length c"
  shows "\<exists>r. c = a @ r \<and> b = r @ d"
proof (intro exI conjI)
  have a: "a = take (length a) c" and b: "b = drop (length a) c @ d"
    using assms by (simp_all add: append_eq_append_conv_if)
  show "c = a @ drop (length a) c"
    using a append_take_drop_id [of "length a" c] by simp
  show "b = drop (length a) c @ d" by (rule b)
qed

lemma script_only_in_hole:
  assumes h: "lt_guarded h" and t: "lt_guarded t"
    and b: "t = [] \<or> hd t \<notin> set ''script''"
  shows "sublist ''<script'' (h @ x @ t) = sublist ''<script'' x"
proof
  assume "sublist ''<script'' x"
  then obtain ps ss where "x = ps @ ''<script'' @ ss" by (auto simp: sublist_def)
  then have "h @ x @ t = (h @ ps) @ ''<script'' @ (ss @ t)" by simp
  then show "sublist ''<script'' (h @ x @ t)" unfolding sublist_def by blast
next
  assume "sublist ''<script'' (h @ x @ t)"
  then obtain ps ss where e: "h @ x @ t = ps @ ''<script'' @ ss"
    by (auto simp: sublist_def)
  then have "prefix ''<script'' (drop (length ps) (h @ (x @ t)))" by simp
  then have "length h \<le> length ps" using h by (rule script_starts_outside [rotated])
  then obtain qs where ps: "ps = h @ qs" and e2: "x @ t = qs @ ''<script'' @ ss"
    using append_eq_split [OF e] by blast
  show "sublist ''<script'' x"
  proof (cases "length x \<le> length qs")
    case True
    then obtain rs where "qs = x @ rs" and "t = rs @ ''<script'' @ ss"
      using append_eq_split [OF e2] by blast
    then have "sublist ''<script'' t" unfolding sublist_def by blast
    then show ?thesis using guarded_no_script [OF t] by simp
  next
    case False
    then have "length qs \<le> length x" by simp
    then obtain u where x: "x = qs @ u" and e3: "''<script'' @ ss = u @ t"
      using append_eq_split [OF e2 [symmetric]] by blast
    have u: "u \<noteq> []" using False x by auto
    show ?thesis
    proof (cases "length ''<script'' \<le> length u")
      case True
      then obtain u' where "u = ''<script'' @ u'"
        using append_eq_split [OF e3] by blast
      then have "x = qs @ ''<script'' @ u'" using x by simp
      then show ?thesis unfolding sublist_def by blast
    next
      case False
      then have "length u \<le> length ''<script''" by simp
      then obtain v where pv: "''<script'' = u @ v" and tv: "t = v @ ss"
        using append_eq_split [OF e3 [symmetric]] by blast
      have v: "v \<noteq> []" using False pv by (cases v) auto
      obtain c u' where uc: "u = c # u'" using u by (cases u) auto
      then have "''script'' = u' @ v" using pv by simp
      then have "set ''script'' = set u' \<union> set v" by (simp only: set_append)
      then have "set v \<subseteq> set ''script''" by blast
      moreover have "hd t = hd v" "t \<noteq> []" using tv v by simp_all
      moreover have "hd v \<in> set v" using v by (rule hd_in_set)
      ultimately have "hd t \<in> set ''script''" by auto
      then show ?thesis using b \<open>t \<noteq> []\<close> by simp
    qed
  qed
qed

lemma nl_not_script: "hd (concat (detailTail P a n)) \<notin> set ''script''"
  by (simp add: detailTail_def nl_def)

lemma escapeHTML_script_example:
  "escapeHTML (Some ''<script>alert(1)</script>'') = ''&lt;script&gt;alert(1)&lt;/script&gt;''"
  by (simp add: escapeHTML_def escapeChar_def)

lemma sublist_concat_part: "p \<in> set ps \<Longrightarrow> sublist x p \<Longrightarrow> sublist x (concat ps)"
proof -
  assume "p \<in> set ps" and x: "sublist x p"
  then obtain qs rs where "ps = qs @ p # rs" by (auto simp: in_set_conv_decomp)
  then have "concat ps = concat qs @ p @ concat rs" by simp
  moreover obtain u v where "p = u @ x @ v" using x by (auto simp: sublist_def)
  ultimately have "concat ps = (concat qs @ u) @ x @ (v @ concat rs)" by simp
  then show ?thesis unfolding sublist_def by blast
qed

lemma print_link_onclick:
  \<open>sublist ''onclick='' ''          <a href="#" onclick="window.print(); return false;">''\<close>
  by code_simp

text \<open>
  Claim C2. Whatever the fields of an article are, also when \<open>title\<close>, \<open>topic\<close>,
  \<open>excerpt\<close>, \<open>author\<close>, \<open>date\<close> or \<open>cover\<close> is \<open><script>alert(1)</script>\<close>: the markup of
  \<open>generateCardHTML\<close> does not contain \<open><script\<close>, and the markup of
  \<open>generateDetailHTML\<close>, which is \<open>detailMarkup\<close> with the sanitized content at
  \<open>${sanitizedContent}\<close>, contains \<open><script\<close> exactly when the text at
  \<open>${sanitizedContent}\<close> does: no escaped field brings one in.
\<close>

theorem escaped_fields_never_script:
  "\<not> sublist ''<script'' (generateCardHTML P a)
   \<and> generateDetailHTML P a
       = detailMarkup P a (sanitizeHTML P (orElse (content a) ''<p>Konten tidak tersedia.</p>''))
   \<and> (\<forall>x. sublist ''<script'' (detailMarkup P a x) = sublist ''<script'' x)"
proof (intro conjI allI)
  show "\<not> sublist ''<script'' (generateCardHTML P a)"
    by (rule guarded_no_script) (rule generateCardHTML_guarded)
next
  show "generateDetailHTML P a
       = detailMarkup P a (sanitizeHTML P (orElse (content a) ''<p>Konten tidak tersedia.</p>''))"
    by (simp add: generateDetailHTML_def)
next
  fix x
  let ?n = "calculateReadingTime (orElse (content a) [])"
  let ?h = "concat (detailHead P a (detailCoverHTML a) ?n)"
  let ?t = "concat (detailTail P a ?n)"
  have m: "detailMarkup P a x = ?h @ x @ ?t"
    by (simp add: detailMarkup_def Let_def)
  have "sublist ''<script'' (?h @ x @ ?t) = sublist ''<script'' x"
    by (intro script_only_in_hole detailHead_guarded detailCoverHTML_guarded
        detailTail_guarded disjI2 nl_not_script)
  then show "sublist ''<script'' (detailMarkup P a x) = sublist ''<script'' x"
    by (simp only: m)
qed

lemma sample_placeholder:
  "sanitizeHTML samplePlatform ''<p>Konten tidak tersedia.</p>'' = ''<p>Konten tidak tersedia.</p>''"
  by (simp add: sanitizeHTML_def samplePlatform_def sampleParseHTML_def sanitizeDOM_def
      removeHandlerAttributes_def sampleSerializeHTML_def serializeAttributes_def
      voidElement_def rawTextElement_def escapeChar_def)

theorem escaped_fields_never_script_witness:
  "\<not> sublist ''<script'' (generateCardHTML samplePlatform scriptArticle)
   \<and> \<not> sublist ''<script'' (generateDetailHTML samplePlatform scriptArticle)"
proof -
  have c: "orElse (content scriptArticle) ''<p>Konten tidak tersedia.</p>'' = ''<p>Konten tidak tersedia.</p>''"
    by (simp add: orElse_def scriptArticle_def)
  have "\<not> sublist ''<script'' ''<p>Konten tidak tersedia.</p>''"
    by code_simp
  then show ?thesis
    using escaped_fields_never_script [of samplePlatform scriptArticle]
    by (simp add: c sample_placeholder)
qed

text \<open>
  Claim C10. The markup of \<open>generateDetailHTML\<close> contains \<open>onclick=\<close> for every article:
  the print link of the template carries an inline event handler, so the markup is
  never free of \<open>on*\<close> attributes, whatever the sanitizer did to the content.
\<close>

theorem generateDetailHTML_has_onclick: "sublist ''onclick='' (generateDetailHTML P a)"
proof -
  let ?n = "calculateReadingTime (orElse (content a) [])"
  have "''          <a href=\"#\" onclick=\"window.print(); return false;\">'' \<in> set (detailTail P a ?n)"
    by (simp add: detailTail_def)
  then show ?thesis
    unfolding generateDetailHTML_def detailMarkup_def Let_def
    by (intro sublist_concat_part [OF _ print_link_onclick]) simp
qed

section \<open>Properties of the cache\<close>

lemmas js_defs = js_return_def js_throw_def js_bind_def js_try_def js_lift_def

lemma getCachedData_cases:
  "getCachedData P now w =
     (if denied w then (Inr JNull, w)
      else case items w cacheKey of
        None \<Rightarrow> (Inr JNull, w)
      | Some text \<Rightarrow>
          if text = [] then (Inr JNull, w)
          else (case JSON_parse P text of
            Inl e \<Rightarrow> (Inr JNull, w)
          | Inr parsed \<Rightarrow>
              if parsed = JNull \<or> parsed = JUndefined then (Inr JNull, w)
              else if stillValid P now (property parsed ''timestamp'')
                then (Inr (property parsed ''data''), w)
                else (Inr JNull, w\<lparr>items := (items w)(cacheKey := None)\<rparr>)))"
  by (simp add: getCachedData_def js_defs getItem_def removeItem_def destructure_def
      split: option.split sum.split)

lemma setCachedData_cases:
  "setCachedData P now data w =
     (if denied w \<or> capacity w < length (JSON_stringify P (cacheObject data now)) then (Inr (), w)
      else (Inr (), w\<lparr>items := (items w)(cacheKey \<mapsto> JSON_stringify P (cacheObject data now))\<rparr>))"
  by (simp add: setCachedData_def js_defs setItem_def)

lemma getCachedData_returns: "\<exists>v w'. getCachedData P now w = (Inr v, w')"
  unfolding getCachedData_cases by (simp split: option.split sum.split)

text \<open>
  Claim C3, as the program has it. \<open>getCachedData\<close> never raises. When the entry parses
  to a value other than \<open>null\<close> and its time stamp passes the test
  \<open>now - timestamp < cacheDuration\<close>, the result is the \<open>data\<close> of the entry; in every
  other state the result is \<open>null\<close>. The entry is removed in one case only: its text
  parsed to a value other than \<open>null\<close> and the time stamp failed the test (it is too
  old, missing or not a number). When storage is denied, the text is empty or does
  not parse, or it parses to \<open>null\<close>, the \<open>catch\<close> branch or the early return leaves
  storage as it is.
\<close>

theorem getCachedData_fails_soft:
  "(\<exists>v w'. getCachedData P now w = (Inr v, w'))
   \<and> getCachedData P now w =
     (if denied w then (Inr JNull, w)
      else case items w cacheKey of
        None \<Rightarrow> (Inr JNull, w)
      | Some text \<Rightarrow>
          if text = [] then (Inr JNull, w)
          else (case JSON_parse P text of
            Inl e \<Rightarrow> (Inr JNull, w)
          | Inr parsed \<Rightarrow>
              if parsed = JNull \<or> parsed = JUndefined then (Inr JNull, w)
              else if stillValid P now (property parsed ''timestamp'')
                then (Inr (property parsed ''data''), w)
                else (Inr JNull, w\<lparr>items := (items w)(cacheKey := None)\<rparr>)))"
  using getCachedData_returns [of P now w] getCachedData_cases [of P now w] by blast

text \<open>
  The claim as stated, that a corrupt entry is removed by the read, fails for the
  entry \<open>{\<close>: \<open>JSON.parse\<close> raises, the \<open>catch\<close> branch returns \<open>null\<close>, and the entry is
  still in storage after the read.
\<close>

theorem getCachedData_keeps_corrupt_entry:
  "JSON_parse samplePlatform ''{'' = Inl (JsError SyntaxError ''Unexpected end of JSON input'')
   \<and> items corruptWorld cacheKey = Some ''{''
   \<and> fst (getCachedData samplePlatform 1000 corruptWorld) = Inr JNull
   \<and> items (snd (getCachedData samplePlatform 1000 corruptWorld)) cacheKey = Some ''{''"
proof -
  have p: "JSON_parse samplePlatform ''{'' = Inl (JsError SyntaxError ''Unexpected end of JSON input'')"
    by (simp add: samplePlatform_def sampleParseJSON_def sampleText_def)
  have i: "items corruptWorld cacheKey = Some ''{''" and d: "\<not> denied corruptWorld"
    by (simp_all add: corruptWorld_def emptyWorld_def)
  have "getCachedData samplePlatform 1000 corruptWorld = (Inr JNull, corruptWorld)"
    unfolding getCachedData_cases by (simp add: p i d)
  then show ?thesis using p i by simp
qed

lemma setCachedData_stores:
  assumes "\<not> denied w" and "length (JSON_stringify P (cacheObject data t0)) \<le> capacity w"
  shows "snd (setCachedData P t0 data w)
           = w\<lparr>items := (items w)(cacheKey \<mapsto> JSON_stringify P (cacheObject data t0))\<rparr>"
  using assms by (simp add: setCachedData_cases)

lemma read_stored_entry:
  assumes "\<not> denied w"
    and "items w cacheKey = Some text" and "text \<noteq> []"
    and "JSON_parse P text = Inr (cacheObject (JArr xs) t0)"
  shows "getCachedData P t1 w =
           (if t1 - t0 < cacheDuration then (Inr (JArr xs), w)
            else (Inr JNull, w\<lparr>items := (items w)(cacheKey := None)\<rparr>))"
proof -
  have ts: "property (cacheObject (JArr xs) t0) ''timestamp'' = JNum t0"
    and da: "property (cacheObject (JArr xs) t0) ''data'' = JArr xs"
    and nn: "cacheObject (JArr xs) t0 \<noteq> JNull" "cacheObject (JArr xs) t0 \<noteq> JUndefined"
    by (simp_all add: property_def cacheObject_def)
  have sv: "stillValid P t1 (JNum t0) = (t1 - t0 < cacheDuration)"
    by (simp add: stillValid_def toNumber_def)
  show ?thesis
    unfolding getCachedData_cases using assms nn by (simp add: ts da sv)
qed

lemma read_without_entry:
  "items w cacheKey = None \<Longrightarrow> getCachedData P t w = (Inr JNull, w)"
  unfolding getCachedData_cases by simp

text \<open>
  Claim C4. Let \<open>setCachedData\<close> store the collection \<open>C\<close> at time \<open>t0\<close>, in a storage that
  accepts the text and with a \<open>JSON.parse\<close> that reads back what \<open>JSON.stringify\<close>
  wrote. A read at time \<open>t1\<close> returns \<open>C\<close> exactly when \<open>t1 - t0 < cacheDuration\<close>; from
  \<open>t1 - t0 \<ge> cacheDuration\<close> on it returns \<open>null\<close> and removes the entry, so that the
  next read, at any time \<open>t2\<close>, returns \<open>null\<close> as well.
\<close>

theorem cache_round_trip:
  assumes "\<not> denied w"
    and "length (JSON_stringify P (cacheObject (JArr xs) t0)) \<le> capacity w"
    and "JSON_stringify P (cacheObject (JArr xs) t0) \<noteq> []"
    and "JSON_parse P (JSON_stringify P (cacheObject (JArr xs) t0)) = Inr (cacheObject (JArr xs) t0)"
  shows "let w1 = snd (setCachedData P t0 (JArr xs) w);
             w2 = w1\<lparr>items := (items w1)(cacheKey := None)\<rparr>
         in (fst (getCachedData P t1 w1) = Inr (JArr xs)) = (t1 - t0 < cacheDuration)
            \<and> (t1 - t0 < cacheDuration \<longrightarrow> getCachedData P t1 w1 = (Inr (JArr xs), w1))
            \<and> (cacheDuration \<le> t1 - t0 \<longrightarrow>
                  getCachedData P t1 w1 = (Inr JNull, w2)
                  \<and> items w2 cacheKey = None
                  \<and> getCachedData P t2 w2 = (Inr JNull, w2))"
proof -
  let ?text = "JSON_stringify P (cacheObject (JArr xs) t0)"
  let ?w1 = "w\<lparr>items := (items w)(cacheKey \<mapsto> ?text)\<rparr>"
  let ?w2 = "?w1\<lparr>items := (items ?w1)(cacheKey := None)\<rparr>"
  have w1: "snd (setCachedData P t0 (JArr xs) w) = ?w1"
    using assms(1,2) by (rule setCachedData_stores)
  have g1: "getCachedData P t1 ?w1 =
      (if t1 - t0 < cacheDuration then (Inr (JArr xs), ?w1) else (Inr JNull, ?w2))"
    using assms by (intro read_stored_entry) simp_all
  have g2: "getCachedData P t2 ?w2 = (Inr JNull, ?w2)"
    by (rule read_without_entry) simp
  show ?thesis
    unfolding Let_def w1 using g1 g2 by simp
qed

lemma sample_cache_text:
  \<open>JSON_stringify samplePlatform (cacheObject sampleData 1000)
     = ''{"data":'' @ sampleText @ '',"timestamp":1000}''\<close>
  unfolding samplePlatform_def by (simp, code_simp)

lemma sample_round_trip:
  "JSON_parse samplePlatform (JSON_stringify samplePlatform (cacheObject sampleData 1000))
     = Inr (cacheObject sampleData 1000)"
  unfolding sample_cache_text
  by (simp add: samplePlatform_def sampleParseJSON_def sampleText_def cacheObject_def)

lemma sample_text_fits:
  "length (JSON_stringify samplePlatform (cacheObject sampleData 1000)) \<le> capacity emptyWorld"
  unfolding sample_cache_text by (simp add: sampleText_def emptyWorld_def)

lemma sample_text_nonempty:
  "JSON_stringify samplePlatform (cacheObject sampleData 1000) \<noteq> []"
  unfolding sample_cache_text by simp

theorem cache_round_trip_witness:
  "\<not> denied emptyWorld
   \<and> (let w1 = snd (setCachedData samplePlatform 1000 sampleData emptyWorld);
           w2 = w1\<lparr>items := (items w1)(cacheKey := None)\<rparr>
       in (1000 + cacheDuration - 1) - 1000 < cacheDuration
          \<and> getCachedData samplePlatform (1000 + cacheDuration - 1) w1 = (Inr sampleData, w1)
          \<and> cacheDuration \<le> (1000 + cacheDuration) - 1000
          \<and> getCachedData samplePlatform (1000 + cacheDuration) w1 = (Inr JNull, w2)
          \<and> items w2 cacheKey = None
          \<and> getCachedData samplePlatform (1000 + cacheDuration + 1) w2 = (Inr JNull, w2))"
proof -
  have d: "\<not> denied emptyWorld" by (simp add: emptyWorld_def)
  note h = d sample_text_fits [unfolded sampleData_def] sample_text_nonempty [unfolded sampleData_def]
    sample_round_trip [unfolded sampleData_def]
  show ?thesis
    using d
      cache_round_trip [OF h, of "1000 + cacheDuration - 1"]
      cache_round_trip [OF h, of "1000 + cacheDuration" "1000 + cacheDuration + 1"]
    unfolding Let_def sampleData_def by simp
qed

section \<open>Properties of the loader\<close>

lemma getCachedData_read:
  "getCachedData P now w = (Inr (cacheRead P now w), afterRead P now w)"
  using getCachedData_returns [of P now w]
  by (auto simp: cacheRead_def afterRead_def)

lemma fetches_afterRead: "fetches (afterRead P now w) = fetches w"
  unfolding afterRead_def getCachedData_cases
  by (simp split: option.split sum.split)

lemma setCachedData_returns: "fst (setCachedData P now data w) = Inr ()"
  by (simp add: setCachedData_cases)

lemma fetches_setCachedData: "fetches (snd (setCachedData P now data w)) = fetches w"
  by (simp add: setCachedData_cases)

lemma loadArticles_cases:
  "loadArticles P now1 now2 net w =
     (let cached = cacheRead P now1 w; w1 = afterRead P now1 w;
          w2 = w1\<lparr>fetches := fetches w1 + 1\<rparr>
      in if truthy cached then (Inr cached, w1)
         else (case retrieval P net of
                 Inl cause \<Rightarrow> (Inl (JsError Error (''Gagal memuat data: '' @ cause)), w2)
               | Inr data \<Rightarrow> (Inr data, snd (setCachedData P now2 data w2))))"
  unfolding loadArticles_def js_try_def js_bind_def [of "getCachedData P now1"] getCachedData_read
  by (cases net)
     (auto simp: Let_def retrieval_def js_defs fetch_def setCachedData_cases split: sum.split)

text \<open>
  Claim C6, as the program has it. \<open>loadArticles\<close> fails exactly when the cache gives
  nothing usable and the retrieval it then makes fails: the network fails, the status
  is not a success, or the body does not decode to an array. The elements of the
  array are not inspected: an array of values that are not records is returned like
  any other. Every failure is an \<open>Error\<close> whose message is \<open>Gagal memuat data: \<close> followed
  by the cause; of the error that was caught, only the message text is passed on.
  With a usable cache entry no retrieval is made and the call does not fail.
\<close>

theorem loadArticles_failure:
  "fst (loadArticles P now1 now2 net w) =
     (if truthy (cacheRead P now1 w) then Inr (cacheRead P now1 w)
      else case retrieval P net of
             Inl cause \<Rightarrow> Inl (JsError Error (''Gagal memuat data: '' @ cause))
           | Inr data \<Rightarrow> Inr data)
   \<and> ((\<exists>e. fst (loadArticles P now1 now2 net w) = Inl e)
        = (\<not> truthy (cacheRead P now1 w) \<and> (\<exists>cause. retrieval P net = Inl cause)))"
  unfolding loadArticles_cases Let_def
  by (cases "retrieval P net") simp_all

text \<open>
  The claim as stated, that the call fails when the body does not decode to an
  ordered sequence of records, fails for the body \<open>[1,null]\<close>: it is an array, so the
  call returns it.
\<close>

theorem loadArticles_accepts_non_records:
  "JSON_parse samplePlatform ''[1,null]'' = Inr (JArr [JNum 1, JNull])
   \<and> \<not> isRecordSequence (JArr [JNum 1, JNull])
   \<and> fst (loadArticles samplePlatform 900 1000 (Fulfilled (Response 200 ''[1,null]'')) emptyWorld)
       = Inr (JArr [JNum 1, JNull])"
proof -
  have p: "JSON_parse samplePlatform ''[1,null]'' = Inr (JArr [JNum 1, JNull])"
    by (simp add: samplePlatform_def sampleParseJSON_def sampleText_def)
  have n: "\<not> isRecordSequence (JArr [JNum 1, JNull])"
    by (simp add: isRecordSequence_def isRecord_def)
  have "items emptyWorld cacheKey = None" by (simp add: emptyWorld_def)
  then have "getCachedData samplePlatform 900 emptyWorld = (Inr JNull, emptyWorld)"
    by (rule read_without_entry)
  then have c: "cacheRead samplePlatform 900 emptyWorld = JNull"
    by (simp add: cacheRead_def)
  have r: "retrieval samplePlatform (Fulfilled (Response 200 ''[1,null]'')) = Inr (JArr [JNum 1, JNull])"
    by (simp add: retrieval_def ok_def p isArray_def)
  have "fst (loadArticles samplePlatform 900 1000 (Fulfilled (Response 200 ''[1,null]'')) emptyWorld)
       = Inr (JArr [JNum 1, JNull])"
    by (simp add: loadArticles_cases Let_def c r truthy_def)
  then show ?thesis using p n by simp
qed

text \<open>
  Claim C5. When the read of the cache gives a usable value, \<open>loadArticles\<close> returns it
  and issues no retrieval; otherwise it issues exactly one. A call with no cache
  entry, answered by the network with a success status and a body that decodes to an
  array, returns the array and leaves it in the cache, so that (storage accepting
  the text, \<open>JSON.parse\<close> reading back what \<open>JSON.stringify\<close> wrote) a second call
  within \<open>cacheDuration\<close> returns the same array and issues no retrieval, whatever the
  network would answer.
\<close>

theorem loadArticles_retrievals:
  "(truthy (cacheRead P now1 w) \<longrightarrow>
      loadArticles P now1 now2 net w = (Inr (cacheRead P now1 w), afterRead P now1 w)
      \<and> fetches (snd (loadArticles P now1 now2 net w)) = fetches w)
   \<and> (\<not> truthy (cacheRead P now1 w) \<longrightarrow>
      fetches (snd (loadArticles P now1 now2 net w)) = fetches w + 1)
   \<and> (\<not> denied w \<and> items w cacheKey = None
      \<and> net = Fulfilled r \<and> ok r \<and> JSON_parse P (body r) = Inr (JArr xs)
      \<and> length (JSON_stringify P (cacheObject (JArr xs) now2)) \<le> capacity w
      \<and> JSON_stringify P (cacheObject (JArr xs) now2) \<noteq> []
      \<and> JSON_parse P (JSON_stringify P (cacheObject (JArr xs) now2)) = Inr (cacheObject (JArr xs) now2)
      \<and> now3 - now2 < cacheDuration \<longrightarrow>
      (let w2 = snd (loadArticles P now1 now2 net w)
       in fst (loadArticles P now1 now2 net w) = Inr (JArr xs)
          \<and> fetches w2 = fetches w + 1
          \<and> items w2 cacheKey = Some (JSON_stringify P (cacheObject (JArr xs) now2))
          \<and> loadArticles P now3 now4 net' w2 = (Inr (JArr xs), w2)))"
proof (intro conjI impI)
  assume "truthy (cacheRead P now1 w)"
  then show "loadArticles P now1 now2 net w = (Inr (cacheRead P now1 w), afterRead P now1 w)"
    and "fetches (snd (loadArticles P now1 now2 net w)) = fetches w"
    by (simp_all add: loadArticles_cases fetches_afterRead)
next
  assume "\<not> truthy (cacheRead P now1 w)"
  then show "fetches (snd (loadArticles P now1 now2 net w)) = fetches w + 1"
    by (cases "retrieval P net")
       (simp_all add: loadArticles_cases Let_def fetches_afterRead fetches_setCachedData)
next
  let ?text = "JSON_stringify P (cacheObject (JArr xs) now2)"
  assume a: "\<not> denied w \<and> items w cacheKey = None
      \<and> net = Fulfilled r \<and> ok r \<and> JSON_parse P (body r) = Inr (JArr xs)
      \<and> length ?text \<le> capacity w \<and> ?text \<noteq> []
      \<and> JSON_parse P ?text = Inr (cacheObject (JArr xs) now2)
      \<and> now3 - now2 < cacheDuration"
  let ?wf = "w\<lparr>fetches := Suc (fetches w)\<rparr>"
  let ?w2 = "w\<lparr>fetches := Suc (fetches w), items := (items w)(cacheKey \<mapsto> ?text)\<rparr>"
  have rd: "getCachedData P now1 w = (Inr JNull, w)"
    using a by (intro read_without_entry) simp
  then have cr: "cacheRead P now1 w = JNull" and ar: "afterRead P now1 w = w"
    by (simp_all add: cacheRead_def afterRead_def)
  have rt: "retrieval P net = Inr (JArr xs)"
    using a by (simp add: retrieval_def isArray_def)
  have nd: "\<not> denied w" and fit: "\<not> capacity w < length ?text"
    using a by auto
  have l1: "loadArticles P now1 now2 net w = (Inr (JArr xs), ?w2)"
    by (simp add: loadArticles_cases Let_def cr ar rt truthy_def setCachedData_cases nd fit)
  have rd2: "getCachedData P now3 ?w2 = (Inr (JArr xs), ?w2)"
    using a read_stored_entry [of ?w2 ?text P xs now2 now3] by simp
  then have cr2: "cacheRead P now3 ?w2 = JArr xs" and ar2: "afterRead P now3 ?w2 = ?w2"
    by (simp_all add: cacheRead_def afterRead_def)
  have l2: "loadArticles P now3 now4 net' ?w2 = (Inr (JArr xs), ?w2)"
    by (simp add: loadArticles_cases Let_def cr2 ar2 truthy_def)
  show "let w2 = snd (loadArticles P now1 now2 net w)
       in fst (loadArticles P now1 now2 net w) = Inr (JArr xs)
          \<and> fetches w2 = fetches w + 1
          \<and> items w2 cacheKey = Some ?text
          \<and> loadArticles P now3 now4 net' w2 = (Inr (JArr xs), w2)"
    unfolding Let_def l1 using l2 by simp
qed

lemma sample_body: "JSON_parse samplePlatform sampleText = Inr sampleData"
  by (simp add: samplePlatform_def sampleParseJSON_def)

theorem loadArticles_retrievals_witness:
  "\<not> truthy (cacheRead samplePlatform 900 emptyWorld)
   \<and> fst (loadArticles samplePlatform 900 1000 sampleResponse emptyWorld) = Inr sampleData
   \<and> fetches (snd (loadArticles samplePlatform 900 1000 sampleResponse emptyWorld)) = 1
   \<and> truthy (cacheRead samplePlatform 2000 (snd (loadArticles samplePlatform 900 1000 sampleResponse emptyWorld)))
   \<and> fst (loadArticles samplePlatform 2000 2100 networkDown
              (snd (loadArticles samplePlatform 900 1000 sampleResponse emptyWorld))) = Inr sampleData
   \<and> fetches (snd (loadArticles samplePlatform 2000 2100 networkDown
              (snd (loadArticles samplePlatform 900 1000 sampleResponse emptyWorld)))) = 1"
proof -
  let ?w2 = "snd (loadArticles samplePlatform 900 1000 sampleResponse emptyWorld)"
  let ?xs = "[JObj [(''id'', JStr ''a1''), (''topic'', JStr ''Berita''), (''title'', JStr ''Gempa'')],
           JObj [(''id'', JStr ''a2''), (''topic'', JStr ''Edukasi''), (''title'', JStr ''Fisika Dasar'')]]"
  have sd: "sampleData = JArr ?xs" by (simp add: sampleData_def)
  have e: "\<not> denied emptyWorld" "items emptyWorld cacheKey = None" "fetches emptyWorld = 0"
    by (simp_all add: emptyWorld_def)
  have miss: "\<not> truthy (cacheRead samplePlatform 900 emptyWorld)"
    using read_without_entry [OF e(2), of samplePlatform 900]
    by (simp add: cacheRead_def truthy_def)
  have hyp: "\<not> denied emptyWorld \<and> items emptyWorld cacheKey = None
      \<and> sampleResponse = Fulfilled (Response 200 sampleText) \<and> ok (Response 200 sampleText)
      \<and> JSON_parse samplePlatform (body (Response 200 sampleText)) = Inr (JArr ?xs)
      \<and> length (JSON_stringify samplePlatform (cacheObject (JArr ?xs) 1000)) \<le> capacity emptyWorld
      \<and> JSON_stringify samplePlatform (cacheObject (JArr ?xs) 1000) \<noteq> []
      \<and> JSON_parse samplePlatform (JSON_stringify samplePlatform (cacheObject (JArr ?xs) 1000))
            = Inr (cacheObject (JArr ?xs) 1000)
      \<and> (2000::int) - 1000 < cacheDuration"
    using e sample_body sample_text_fits sample_text_nonempty sample_round_trip
    unfolding sd by (simp add: sampleResponse_def ok_def cacheDuration_def)
  note first = loadArticles_retrievals [where P = samplePlatform and ?now1.0 = 900 and ?now2.0 = 1000
      and w = emptyWorld and net = sampleResponse and r = "Response 200 sampleText" and xs = ?xs
      and ?now3.0 = 2000 and ?now4.0 = 2100 and net' = networkDown]
  have fresh: "fst (loadArticles samplePlatform 900 1000 sampleResponse emptyWorld) = Inr (JArr ?xs)"
      "fetches ?w2 = fetches emptyWorld + 1"
      "loadArticles samplePlatform 2000 2100 networkDown ?w2 = (Inr (JArr ?xs), ?w2)"
    using first hyp unfolding Let_def by blast+
  have hit: "truthy (cacheRead samplePlatform 2000 ?w2)"
    using fresh(3) unfolding loadArticles_cases [of samplePlatform 2000 2100 networkDown ?w2]
    by (auto simp: Let_def retrieval_def networkDown_def split: if_splits)
  note second = loadArticles_retrievals [where P = samplePlatform and ?now1.0 = 2000 and ?now2.0 = 2100
      and w = ?w2 and net = networkDown]
  have "fetches (snd (loadArticles samplePlatform 2000 2100 networkDown ?w2)) = fetches ?w2"
    using second hit by blast
  then show ?thesis
    using miss fresh hit e(3) unfolding sd by simp
qed

section \<open>Properties of the sanitizer\<close>

lemma removeAttribute_keeps_others:
  "isHandler (n, v) \<Longrightarrow>
     filter (\<lambda>a. \<not> isHandler a) (removeAttribute n cur) = filter (\<lambda>a. \<not> isHandler a) cur"
  by (induction cur) (auto simp: isHandler_def)

lemma count_removeAttribute:
  "count_list (map fst (removeAttribute n cur)) m
     = (if m = n then count_list (map fst cur) m - 1 else count_list (map fst cur) m)"
  by (induction cur) auto

lemma no_handler_filter:
  "\<forall>a\<in>set cur. \<not> isHandler a \<Longrightarrow> filter (\<lambda>a. \<not> isHandler a) cur = cur"
  by (induction cur) auto

lemma fold_removes_handlers:
  fixes cur xs :: "(string \<times> string) list"
  shows "\<forall>n. prefix ''on'' n \<longrightarrow> count_list (map fst cur) n \<le> count_list (map fst xs) n \<Longrightarrow>
   fold (\<lambda>attr el. if prefix ''on'' (fst attr) then removeAttribute (fst attr) el else el) xs cur
     = filter (\<lambda>a. \<not> isHandler a) cur"
proof (induction xs arbitrary: cur)
  case Nil
  have "\<not> isHandler a" if "a \<in> set cur" for a
  proof
    assume h: "isHandler a"
    have "fst a \<in> set (map fst cur)" using that by simp
    then have "count_list (map fst cur) (fst a) \<noteq> 0"
      using count_list_0_iff [of "map fst cur" "fst a"] by blast
    then have "0 < count_list (map fst cur) (fst a)" by simp
    then show False using Nil h by (simp add: isHandler_def)
  qed
  then show ?case by (simp add: no_handler_filter)
next
  case (Cons x xs)
  show ?case
  proof (cases "prefix ''on'' (fst x)")
    case True
    have "\<forall>n. prefix ''on'' n \<longrightarrow>
        count_list (map fst (removeAttribute (fst x) cur)) n \<le> count_list (map fst xs) n"
      using Cons.prems by (auto simp: count_removeAttribute)
    then have "fold (\<lambda>attr el. if prefix ''on'' (fst attr) then removeAttribute (fst attr) el else el) xs
        (removeAttribute (fst x) cur) = filter (\<lambda>a. \<not> isHandler a) (removeAttribute (fst x) cur)"
      by (rule Cons.IH)
    also have "\<dots> = filter (\<lambda>a. \<not> isHandler a) cur"
      using True removeAttribute_keeps_others [of "fst x" "snd x" cur] by (simp add: isHandler_def)
    finally show ?thesis using True by simp
  next
    case False
    have "count_list (map fst cur) n \<le> count_list (map fst xs) n" if "prefix ''on'' n" for n
    proof -
      have "fst x \<noteq> n" using that False by auto
      then show ?thesis using Cons.prems that by (auto split: if_splits)
    qed
    then have "\<forall>n. prefix ''on'' n \<longrightarrow> count_list (map fst cur) n \<le> count_list (map fst xs) n"
      by blast
    then show ?thesis using False Cons.IH by simp
  qed
qed

lemma removeHandlerAttributes_filter:
  "removeHandlerAttributes ats = filter (\<lambda>a. \<not> isHandler a) ats"
  unfolding removeHandlerAttributes_def by (rule fold_removes_handlers) simp

lemma removeScripts_not_script: "isScript (removeScripts n) = isScript n"
  by (cases n) simp_all

lemma clean_sanitized: "\<not> isScript n \<Longrightarrow> clean (removeHandlers (removeScripts n))"
proof (induction n rule: removeScripts.induct)
  case (1 t ats cs)
  have "clean (removeHandlers (removeScripts c))" if "c \<in> set cs" "\<not> isScript c" for c
    using 1 that by simp
  then show ?case
    using 1(2) by (simp add: removeHandlerAttributes_filter list_all_iff)
qed (simp_all add: removeHandlerAttributes_filter list_all_iff)

lemma sanitizeDOM_clean: "list_all clean (sanitizeDOM temp)"
  by (simp add: sanitizeDOM_def list_all_iff clean_sanitized)

lemma clean_fixed: "clean n \<Longrightarrow> \<not> isScript n \<and> removeScripts n = n \<and> removeHandlers n = n"
proof (induction n rule: clean.induct)
  case (1 t ats cs)
  then have c: "\<forall>c\<in>set cs. \<not> isScript c \<and> removeScripts c = c \<and> removeHandlers c = c"
    by (simp add: list_all_iff)
  have "filter (\<lambda>n. \<not> isScript n) cs = cs" using c by (simp add: filter_id_conv)
  moreover have "map removeScripts cs = cs" "map removeHandlers cs = cs"
    using c by (simp_all add: map_idI)
  moreover have "removeHandlerAttributes ats = ats"
    using 1(2) by (simp add: removeHandlerAttributes_filter list_all_iff filter_id_conv)
  ultimately show ?case using 1(2) by simp
next
  case (2 ats cs)
  then show ?case
    by (simp add: removeHandlerAttributes_filter list_all_iff filter_id_conv)
qed simp_all

lemma sanitizeDOM_idempotent: "sanitizeDOM (sanitizeDOM temp) = sanitizeDOM temp"
proof -
  have "\<forall>n\<in>set (sanitizeDOM temp). \<not> isScript n \<and> removeScripts n = n \<and> removeHandlers n = n"
    using sanitizeDOM_clean [of temp] clean_fixed by (auto simp: list_all_iff)
  then show ?thesis
    by (subst (1) sanitizeDOM_def) (simp add: filter_id_conv map_idI)
qed

text \<open>
  On the tree the sanitizer is idempotent, and so is \<open>sanitizeHTML\<close> on every text whose
  sanitized markup the parser reads back as the sanitized tree.
\<close>

lemma sanitizeHTML_idempotent:
  "parseHTML P (sanitizeHTML P x) = sanitizeDOM (parseHTML P x) \<Longrightarrow>
     sanitizeHTML P (sanitizeHTML P x) = sanitizeHTML P x"
  by (simp add: sanitizeHTML_def sanitizeDOM_idempotent)

text \<open>
  Claim C1 says that the markup returned by \<open>sanitizeHTML\<close> has, for every input, no
  \<open>script\<close> element and no attribute whose name begins with \<open>on\<close>. The two
  \<open>querySelectorAll\<close> passes do reach every element outside template contents
  (\<open>sanitizeDOM_clean\<close>), but not the contents of a \<open>template\<close> element, which the
  serializer writes out. On the input below the program returns the input as it is,
  with its \<open>script\<close> element and its \<open>onerror\<close> attribute.
\<close>

theorem sanitizeHTML_keeps_template_content:
  "parseHTML samplePlatform templateInput
     = [Template [] [Element ''script'' [] [Text ''alert(1)''],
                     Element ''img'' [(''src'', ''x''), (''onerror'', ''alert(2)'')] []]]
   \<and> sanitizeHTML samplePlatform templateInput = templateInput
   \<and> sublist ''<script'' (sanitizeHTML samplePlatform templateInput)
   \<and> sublist ''onerror='' (sanitizeHTML samplePlatform templateInput)"
proof -
  have p: "parseHTML samplePlatform templateInput
     = [Template [] [Element ''script'' [] [Text ''alert(1)''],
                     Element ''img'' [(''src'', ''x''), (''onerror'', ''alert(2)'')] []]]"
    by (simp add: samplePlatform_def sampleParseHTML_def templateInput_def)
  have s: "sanitizeHTML samplePlatform templateInput = templateInput"
    unfolding sanitizeHTML_def p
    by (simp add: samplePlatform_def sanitizeDOM_def removeHandlerAttributes_def
        sampleSerializeHTML_def templateInput_def serializeAttributes_def escapeAttribute_def
        voidElement_def rawTextElement_def)
  have "sublist ''<script'' templateInput" "sublist ''onerror='' templateInput"
    unfolding templateInput_def by code_simp+
  then show ?thesis using p s by simp
qed

lemma sanitizeHTML_example:
  \<open>sanitizeHTML samplePlatform ''<p onclick="x()">Halo</p><script>alert(1)</script>'' = ''<p>Halo</p>''\<close>
  by (simp add: sanitizeHTML_def samplePlatform_def sampleParseHTML_def sanitizeDOM_def
      removeHandlerAttributes_def sampleSerializeHTML_def serializeAttributes_def
      voidElement_def rawTextElement_def escapeChar_def)

section \<open>Properties of the filter\<close>

lemma filterLoop_filter: "filterLoop callback xs result = result @ filter callback xs"
  by (induction xs arbitrary: result) simp_all

lemma js_filter_filter: "js_filter callback xs = filter callback xs"
  by (simp add: js_filter_def filterLoop_filter)

lemma orElse_empty: "orElse x [] = fieldText x"
  by (cases x) (simp_all add: orElse_def fieldText_def)

lemma applyFilters_filter:
  "applyFilters P C activeTopic query
     = filter (\<lambda>a. topicPredicate activeTopic a \<and> queryPredicate P query a) C"
  by (simp add: applyFilters_def js_filter_filter Let_def topicPredicate_def queryPredicate_def
      orElse_empty)

text \<open>
  Claim C7, as the program has it. For every collection and every filter state,
  \<open>applyFilters\<close> returns exactly the articles for which the topic predicate (the active
  topic is \<open>all\<close> or equals the topic of the article, case-sensitive) and the query
  predicate both hold, in the order of the collection; the query predicate holds when
  the query, in lower case and trimmed, is empty or is contained in the lower-case
  title or the lower-case excerpt.
\<close>

theorem applyFilters_exact:
  "applyFilters P C activeTopic query
     = filter (\<lambda>a. topicPredicate activeTopic a \<and> queryPredicate P query a) C
   \<and> subseq (applyFilters P C activeTopic query) C"
  unfolding applyFilters_filter by simp

lemma applyFilters_visible:
  "a \<in> set (applyFilters P C activeTopic query)
     \<longleftrightarrow> a \<in> set C \<and> topicPredicate activeTopic a \<and> queryPredicate P query a"
  unfolding applyFilters_filter by auto

text \<open>The sample platform on the texts of the examples.\<close>

lemma lower_fisika: "toLowerCase samplePlatform ''Fisika Dasar'' = ''fisika dasar''"
  unfolding samplePlatform_def by (simp, code_simp)

lemma lower_gempa: "toLowerCase samplePlatform ''Gempa'' = ''gempa''"
  unfolding samplePlatform_def by (simp, code_simp)

lemma lower_empty: "toLowerCase samplePlatform [] = []"
  by (simp add: samplePlatform_def)

lemma lower_query:
  "toLowerCase samplePlatform ''fisika'' = ''fisika''"
  "toLowerCase samplePlatform '' fisika'' = '' fisika''"
  unfolding samplePlatform_def by (simp, code_simp)+

lemma trim_query: "trim ''fisika'' = ''fisika''" "trim '' fisika'' = ''fisika''"
  by code_simp+

lemma trim_empty: "trim [] = []"
  by code_simp

text \<open>A no-break space at the front of the query is trimmed as a space is.\<close>

lemma trim_no_break_space: "trim ([CHR 0xC2, CHR 0xA0] @ ''fisika'') = ''fisika''"
  by code_simp

lemma sample_fields:
  "fieldText (title sampleArticle1) = ''Gempa''" "fieldText (excerpt sampleArticle1) = []"
  "fieldText (title sampleArticle2) = ''Fisika Dasar''" "fieldText (excerpt sampleArticle2) = []"
  "topic sampleArticle1 = Some ''Berita''" "topic sampleArticle2 = Some ''Edukasi''"
  by (simp_all add: fieldText_def sampleArticle1_def sampleArticle2_def)

lemma sample_contains:
  "\<not> sublist ''fisika'' ''gempa''" "sublist ''fisika'' ''fisika dasar''"
  "\<not> sublist ''fisika'' []" "\<not> sublist '' fisika'' ''fisika dasar''"
  "\<not> sublist '' fisika'' []"
  by code_simp+

text \<open>The two scenarios of the specification.\<close>

lemma scenario_A:
  "applyFilters samplePlatform [sampleArticle1, sampleArticle2] ''Berita'' [] = [sampleArticle1]"
  unfolding applyFilters_filter
  by (simp add: topicPredicate_def queryPredicate_def sample_fields lower_empty trim_empty)

lemma scenario_B:
  "applyFilters samplePlatform [sampleArticle1, sampleArticle2] ''all'' ''fisika'' = [sampleArticle2]"
  unfolding applyFilters_filter
  by (simp add: topicPredicate_def queryPredicate_def sample_fields lower_query trim_query
      lower_fisika lower_gempa lower_empty sample_contains)

text \<open>
  The claim as stated, with the lower-case query looked for as it is, fails for the
  query \<open>fisika\<close> with a space in front: the space keeps the query from being contained in
  \<open>fisika dasar\<close>, and the program, which trims the query, shows the article.
\<close>

theorem applyFilters_trims_query:
  "\<not> claimedQueryPredicate samplePlatform '' fisika'' sampleArticle2
   \<and> applyFilters samplePlatform [sampleArticle1, sampleArticle2] ''all'' '' fisika''
       = [sampleArticle2]"
proof -
  have "applyFilters samplePlatform [sampleArticle1, sampleArticle2] ''all'' '' fisika''
      = [sampleArticle2]"
    unfolding applyFilters_filter
    by (simp add: topicPredicate_def queryPredicate_def sample_fields lower_query trim_query
        lower_fisika lower_gempa lower_empty sample_contains)
  moreover have "\<not> claimedQueryPredicate samplePlatform '' fisika'' sampleArticle2"
    by (simp add: claimedQueryPredicate_def sample_fields lower_query trim_query lower_fisika
        lower_empty sample_contains)
  ultimately show ?thesis by simp
qed

section \<open>Properties of the detail page\<close>

lemma generateDetailHTML_start: "take 7 (generateDetailHTML P a) = CHR 0x0A # ''    <s''"
  by (simp add: generateDetailHTML_def detailMarkup_def Let_def detailHead_def nl_def)

lemma showError_start: "take 7 (showError msg) = CHR 0x0A # ''    <d''"
  by (simp add: showError_def nl_def)

lemma detail_is_not_error: "generateDetailHTML P a \<noteq> showError msg"
proof
  assume "generateDetailHTML P a = showError msg"
  then have "take 7 (generateDetailHTML P a) = take 7 (showError msg)" by simp
  then show False unfolding generateDetailHTML_start showError_start by simp
qed

lemma chooseArticle_found:
  "find (\<lambda>a. Some (article_id a) = articleId) articles = Some a \<Longrightarrow> chooseArticle articleId articles = Inr a"
  by (simp add: chooseArticle_def)

text \<open>
  Claim C9, as the program has it. When no article of the loaded collection has the
  requested id and the collection is not empty, the detail page shows the first
  article of the collection, and what it shows is not the error state. When the
  collection is empty there is no first article, and the page shows the error state
  \<open>Tidak ada artikel tersedia\<close>.
\<close>

theorem detail_falls_back_to_first:
  assumes "\<not> (\<exists>a\<in>set articles. Some (article_id a) = articleId)"
  shows "(articles \<noteq> [] \<longrightarrow>
            initArticleDetail P True articleId (Inr articles)
              = Page (generateDetailHTML P (hd articles))
                     (Some (jsString (title (hd articles)) @ '' - Pajajaran Physical Society''))
            \<and> (\<forall>msg. mountHTML (initArticleDetail P True articleId (Inr articles)) \<noteq> showError msg))
         \<and> (articles = [] \<longrightarrow>
            initArticleDetail P True articleId (Inr articles)
              = Page (showError ''Tidak ada artikel tersedia. Periksa file data/articles.txt'') None)"
proof -
  have none: "find (\<lambda>a. Some (article_id a) = articleId) articles = None"
    using assms by (simp add: find_None_iff)
  show ?thesis
  proof (cases articles)
    case Nil
    then show ?thesis
      by (simp add: initArticleDetail_def chooseArticle_def)
  next
    case (Cons b bs)
    have "chooseArticle articleId articles = Inr b"
      using none Cons by (simp add: chooseArticle_def)
    then show ?thesis
      using Cons by (simp add: initArticleDetail_def detail_is_not_error)
  qed
qed

theorem detail_falls_back_to_first_witness:
  "\<not> (\<exists>a\<in>set [sampleArticle1, sampleArticle2]. Some (article_id a) = Some ''zz'')
   \<and> [sampleArticle1, sampleArticle2] \<noteq> []
   \<and> initArticleDetail samplePlatform True (Some ''zz'') (Inr [sampleArticle1, sampleArticle2])
        = Page (generateDetailHTML samplePlatform sampleArticle1)
               (Some ''Gempa - Pajajaran Physical Society'')
   \<and> \<not> (\<exists>a\<in>set ([] :: article list). Some (article_id a) = Some ''zz'')
   \<and> initArticleDetail samplePlatform True (Some ''zz'') (Inr [])
        = Page (showError ''Tidak ada artikel tersedia. Periksa file data/articles.txt'') None"
proof -
  have n: "\<not> (\<exists>a\<in>set [sampleArticle1, sampleArticle2]. Some (article_id a) = Some ''zz'')"
    by (simp add: sampleArticle1_def sampleArticle2_def)
  have e: "\<not> (\<exists>a\<in>set ([] :: article list). Some (article_id a) = Some ''zz'')"
    by simp
  have t: "jsString (title sampleArticle1) = ''Gempa''"
    by (simp add: jsString_def sampleArticle1_def)
  show ?thesis
    using n detail_falls_back_to_first [OF n, of samplePlatform]
      detail_falls_back_to_first [OF e, of samplePlatform]
    by (simp add: t)
qed

text \<open>
  The claim as stated, for every loaded collection, fails on the empty collection: no
  article matches the id \<open>zz\<close>, and the page is the error state.
\<close>

theorem detail_empty_collection_fails:
  "initArticleDetail samplePlatform True (Some ''zz'') (Inr [])
     = Page (showError ''Tidak ada artikel tersedia. Periksa file data/articles.txt'') None"
  by (simp add: initArticleDetail_def chooseArticle_def)

end
